theory Spec2Isabelle
  imports Main "HOL-Library.Sublist"
begin

section \<open>JavaScript strings\<close>

text \<open>
  A JavaScript string is a sequence of UTF-16 code units. The widget's fixed texts are
  Russian, so a string is modelled as the list of its code units, each a natural number;
  \<open>js\<close> embeds an ASCII literal.
\<close>

type_synonym jsstring = "nat list"

definition js :: "string \<Rightarrow> jsstring" where
  "js s = map of_char s"

text \<open>
  The code units \<open>String.prototype.trim\<close> removes and the regular expression class
  \<open>\s\<close> accepts: ECMAScript's WhiteSpace and LineTerminator.
\<close>

definition is_white :: "nat \<Rightarrow> bool" where
  "is_white c \<longleftrightarrow>
     c = 9 \<or> c = 10 \<or> c = 11 \<or> c = 12 \<or> c = 13 \<or> c = 32 \<or> c = 160 \<or> c = 5760 \<or>
     (8192 \<le> c \<and> c \<le> 8202) \<or> c = 8232 \<or> c = 8233 \<or> c = 8239 \<or> c = 8287 \<or>
     c = 12288 \<or> c = 65279"

definition is_digit :: "nat \<Rightarrow> bool" where
  "is_digit c \<longleftrightarrow> 48 \<le> c \<and> c \<le> 57"

definition trim :: "jsstring \<Rightarrow> jsstring" where
  "trim s = rev (dropWhile is_white (rev (dropWhile is_white s)))"

text \<open>\<open>str_includes pat s\<close> is \<open>s.includes(pat)\<close>.\<close>

fun str_includes :: "jsstring \<Rightarrow> jsstring \<Rightarrow> bool" where
  "str_includes pat [] = (pat = [])"
| "str_includes pat (c # cs) = (prefix pat (c # cs) \<or> str_includes pat cs)"

text \<open>
  \<open>str_replace pat rep s\<close> is \<open>s.replace(pat, rep)\<close> for a string pattern and a
  replacement without \<open>$\<close>: only the first occurrence is replaced.
\<close>

fun str_replace :: "jsstring \<Rightarrow> jsstring \<Rightarrow> jsstring \<Rightarrow> jsstring" where
  "str_replace pat rep [] = (if pat = [] then rep else [])"
| "str_replace pat rep (c # cs) =
     (if prefix pat (c # cs) then rep @ drop (length pat) (c # cs)
      else c # str_replace pat rep cs)"

text \<open>\<open>nl2br s\<close> is \<open>s.replace(/\n/g, '<br>')\<close>: every line feed becomes the markup of a line break.\<close>

definition BR :: jsstring where
  "BR = js ''<br>''"

definition nl2br :: "jsstring \<Rightarrow> jsstring" where
  "nl2br s = concat (map (\<lambda>c. if c = 10 then BR else [c]) s)"

text \<open>The sentinel of the contact form, \<open>[SHOW_CONTACT_FORM]\<close>.\<close>

definition SENTINEL :: jsstring where
  "SENTINEL = js ''[SHOW_CONTACT_FORM]''"


section \<open>Values of a parsed JSON body\<close>

text \<open>
  What \<open>response.json()\<close> can resolve to. A number carries what the code can observe of
  it: whether it is zero (its truthiness) and its \<open>ToString\<close>. \<open>JUndefined\<close> is the
  result of reading a property that is absent.
\<close>

datatype jsval =
    JUndefined
  | JNull
  | JBool bool
  | JNum bool jsstring
  | JStr jsstring
  | JArr "jsval list"
  | JObj "(jsstring \<times> jsval) list"

datatype exn = TypeError | NetworkFailure | SyntaxError

fun truthy :: "jsval \<Rightarrow> bool" where
  "truthy JUndefined = False"
| "truthy JNull = False"
| "truthy (JBool b) = b"
| "truthy (JNum zero r) = (\<not> zero)"
| "truthy (JStr s) = (s \<noteq> [])"
| "truthy (JArr xs) = True"
| "truthy (JObj kvs) = True"

text \<open>
  \<open>get_field v k\<close> is \<open>v.k\<close> for a key that no built-in prototype defines (the code
  reads \<open>response\<close> and \<open>text\<close> only): an own property of an object, \<open>undefined\<close>
  on every other value, and a TypeError on \<open>null\<close> and \<open>undefined\<close>.
\<close>

fun get_field :: "jsval \<Rightarrow> jsstring \<Rightarrow> exn + jsval" where
  "get_field JUndefined k = Inl TypeError"
| "get_field JNull k = Inl TypeError"
| "get_field (JObj kvs) k = Inr (case map_of kvs k of None \<Rightarrow> JUndefined | Some v \<Rightarrow> v)"
| "get_field v k = Inr JUndefined"

fun typeof_object :: "jsval \<Rightarrow> bool" where
  "typeof_object JNull = True"
| "typeof_object (JArr xs) = True"
| "typeof_object (JObj kvs) = True"
| "typeof_object v = False"

text \<open>
  What the environment answers to one \<open>fetch\<close> followed by \<open>response.json()\<close>: the
  request fails, the body is not JSON, or the body parses to a value.
\<close>

datatype outcome = NetworkError | ParseError | Body jsval

definition RESPONSE :: jsstring where
  "RESPONSE = js ''response''"

definition TEXT :: jsstring where
  "TEXT = js ''text''"


section \<open>Regular expressions\<close>

text \<open>
  The fragment of regular expressions the phone pattern is written in, with the
  backtracking order of JavaScript: \<open>rx_match r s\<close> lists the remainders of \<open>s\<close> after
  each way of matching \<open>r\<close> at its start, the preferred way first (an optional part is
  tried present before absent, the left alternative before the right).
\<close>

datatype rx =
    Eps
  | Cls "nat \<Rightarrow> bool"
  | Seq rx rx
  | Alt rx rx
  | Opt rx

fun rx_match :: "rx \<Rightarrow> jsstring \<Rightarrow> jsstring list" where
  "rx_match Eps s = [s]"
| "rx_match (Cls P) [] = []"
| "rx_match (Cls P) (c # cs) = (if P c then [cs] else [])"
| "rx_match (Seq a b) s = concat (map (rx_match b) (rx_match a s))"
| "rx_match (Alt a b) s = rx_match a s @ rx_match b s"
| "rx_match (Opt a) s = rx_match a s @ [s]"

text \<open>
  \<open>rx_exec r s\<close> is \<open>s.match(r)[0]\<close> for a pattern without the global flag: the
  preferred match at the leftmost position that has one, \<open>None\<close> when \<open>r.test(s)\<close> is
  false.
\<close>

fun rx_exec :: "rx \<Rightarrow> jsstring \<Rightarrow> jsstring option" where
  "rx_exec r [] = (case rx_match r [] of [] \<Rightarrow> None | rest # _ \<Rightarrow> Some [])"
| "rx_exec r (c # cs) =
     (case rx_match r (c # cs) of
        [] \<Rightarrow> rx_exec r cs
      | rest # _ \<Rightarrow> Some (take (length (c # cs) - length rest) (c # cs)))"

definition seqs :: "rx list \<Rightarrow> rx" where
  "seqs rs = foldr Seq rs Eps"

definition chr :: "nat \<Rightarrow> rx" where
  "chr k = Cls (\<lambda>c. c = k)"

definition sep :: rx where
  "sep = Opt (Cls (\<lambda>c. is_white c \<or> c = 45))"

definition digit :: rx where
  "digit = Cls is_digit"

text \<open>\<open>/(\+7|8)[\s\-]?\(?\d{3}\)?[\s\-]?\d{3}[\s\-]?\d{2}[\s\-]?\d{2}/\<close>\<close>

definition phoneRegex :: rx where
  "phoneRegex =
     seqs [Alt (Seq (chr 43) (chr 55)) (chr 56), sep, Opt (chr 40), digit, digit, digit,
           Opt (chr 41), sep, digit, digit, digit, sep, digit, digit, sep, digit, digit]"


section \<open>The inline page (templates/index.html)\<close>

text \<open>
  The page is static, so its state is the few things its script reads and writes: the
  message nodes of \<open>#chatBody\<close> (each with its role and its \<open>textContent\<close>), the value
  of \<open>#userInput\<close>, the value of the \<open>input[name="phone"]\<close> of the contact form, the
  local storage, the requests sent and the errors logged. The functions of the page keep
  their names, with the suffix 1 where the widget script has a function of the same name.
\<close>

record inline_page =
  chatBody :: "(bool \<times> jsstring) list"
  userInput :: jsstring
  phoneInput :: jsstring
  localStorage :: "jsstring \<rightharpoonup> jsstring"
  posted :: "(jsstring \<times> jsstring) list"
  sessionId :: jsstring
  logged :: "exn list"

text \<open>\<open>Sorry, an error occurred. Please try once more.\<close> in Russian, as the page has it.\<close>

definition APOLOGY1 :: jsstring where
  "APOLOGY1 =
    [1048, 1079, 1074, 1080, 1085, 1080, 1090, 1077, 44, 32, 1087, 1088, 1086, 1080, 1079,
     1086, 1096, 1083, 1072, 32, 1086, 1096, 1080, 1073, 1082, 1072, 46, 32, 1055, 1086,
     1078, 1072, 1083, 1091, 1081, 1089, 1090, 1072, 44, 32, 1087, 1086, 1087, 1088, 1086,
     1073, 1091, 1081, 1090, 1077, 32, 1077, 1097, 1077, 32, 1088, 1072, 1079, 46]"

text \<open>
  The \<open>textContent\<close> of the greeting the page is served with, \<open>Hello! How can I help?\<close>
  in Russian between the line breaks and the indentation of the markup.
\<close>

definition GREETING1 :: jsstring where
  "GREETING1 =
     10 # replicate 16 32 @
     [1047, 1076, 1088, 1072, 1074, 1089, 1090, 1074, 1091, 1081, 1090, 1077, 33, 32, 1063,
      1077, 1084, 32, 1084, 1086, 1075, 1091, 32, 1087, 1086, 1084, 1086, 1095, 1100, 63] @
     10 # replicate 12 32"

definition SAVBES_PHONE :: jsstring where
  "SAVBES_PHONE = js ''savbes_phone''"

text \<open>
  Assigning a value to \<open>textContent\<close> converts it to a string: \<open>null\<close> and
  \<open>undefined\<close> give the empty string, an object gives \<open>[object Object]\<close>, an array its
  elements joined by commas. An object parsed from JSON that has a \<open>toString\<close> key of its own
  cannot be converted: the assignment throws a TypeError.
\<close>

fun join :: "jsstring list \<Rightarrow> jsstring" where
  "join [] = []"
| "join [s] = s"
| "join (s # t # ss) = s @ 44 # join (t # ss)"

fun sequence :: "(exn + 'a) list \<Rightarrow> exn + 'a list" where
  "sequence [] = Inr []"
| "sequence (Inl e # rs) = Inl e"
| "sequence (Inr x # rs) = (case sequence rs of Inl e \<Rightarrow> Inl e | Inr xs \<Rightarrow> Inr (x # xs))"

fun toString :: "jsval \<Rightarrow> exn + jsstring" where
  "toString JUndefined = Inr (js ''undefined'')"
| "toString JNull = Inr (js ''null'')"
| "toString (JBool b) = Inr (if b then js ''true'' else js ''false'')"
| "toString (JNum zero r) = Inr r"
| "toString (JStr s) = Inr s"
| "toString (JArr xs) =
     (case sequence (map (\<lambda>x. if x = JNull \<or> x = JUndefined then Inr [] else toString x) xs) of
        Inl e \<Rightarrow> Inl e
      | Inr ss \<Rightarrow> Inr (join ss))"
| "toString (JObj kvs) =
     (if map_of kvs (js ''toString'') = None then Inr (js ''[object Object]'')
      else Inl TypeError)"

definition toDOMString :: "jsval \<Rightarrow> exn + jsstring" where
  "toDOMString v = (if v = JNull \<or> v = JUndefined then Inr [] else toString v)"

text \<open>\<open>addMessage(text, isUser)\<close> of the page: a new node with \<open>textContent = text\<close>.\<close>

definition addMessage1 :: "jsval \<Rightarrow> bool \<Rightarrow> inline_page \<Rightarrow> exn + inline_page" where
  "addMessage1 txt isUser st =
     (case toDOMString txt of
        Inl e \<Rightarrow> Inl e
      | Inr s \<Rightarrow> Inr (st\<lparr>chatBody := chatBody st @ [(isUser, s)]\<rparr>))"

text \<open>
  The body of the \<open>try\<close> block after the request: the reply is rendered, then the
  phone pattern is tested on \<open>message\<close>, the text the user sent.
\<close>

definition on_reply1 :: "jsstring \<Rightarrow> jsval \<Rightarrow> inline_page \<Rightarrow> exn + inline_page" where
  "on_reply1 message data st =
     (case get_field data RESPONSE of
        Inl e \<Rightarrow> Inl e
      | Inr r \<Rightarrow>
         (case addMessage1 r False st of
            Inl e \<Rightarrow> Inl e
          | Inr st' \<Rightarrow>
             (case rx_exec phoneRegex message of
                None \<Rightarrow> Inr st'
              | Some m \<Rightarrow>
                  Inr (st'\<lparr>phoneInput := m,
                           localStorage := (localStorage st')(SAVBES_PHONE \<mapsto> m)\<rparr>))))"

text \<open>
  The \<open>catch\<close> block: the error is logged and the apology rendered. Nothing the
  \<open>try\<close> block did before it threw is undone; it throws before it changes the page.
\<close>

definition on_error1 :: "exn \<Rightarrow> inline_page \<Rightarrow> exn + inline_page" where
  "on_error1 e st = addMessage1 (JStr APOLOGY1) False (st\<lparr>logged := logged st @ [e]\<rparr>)"

text \<open>
  \<open>sendMessage()\<close> of the page, run to its end with the environment's answer to the
  request. \<open>Inl\<close> is an error that leaves the function (a rejected promise).
\<close>

definition sendMessage1 :: "outcome \<Rightarrow> inline_page \<Rightarrow> exn + inline_page" where
  "sendMessage1 answer st =
     (let message = trim (userInput st) in
      if message = [] then Inr st
      else
        (case addMessage1 (JStr message) True st of
           Inl e \<Rightarrow> Inl e
         | Inr st1 \<Rightarrow>
            (let st2 = st1\<lparr>userInput := [],
                           posted := posted st1 @ [(message, sessionId st1)]\<rparr>
             in case answer of
                  NetworkError \<Rightarrow> on_error1 NetworkFailure st2
                | ParseError \<Rightarrow> on_error1 SyntaxError st2
                | Body data \<Rightarrow>
                   (case on_reply1 message data st2 of
                      Inl e \<Rightarrow> on_error1 e st2
                    | Inr st3 \<Rightarrow> Inr st3))))"

text \<open>
  The \<open>DOMContentLoaded\<close> handler on a fresh load of the page: the phone input of the
  contact form takes the stored phone number when there is a non-empty one.
\<close>

definition page_load :: "(jsstring \<rightharpoonup> jsstring) \<Rightarrow> jsstring \<Rightarrow> inline_page" where
  "page_load storage sid =
     \<lparr>chatBody = [(False, GREETING1)], userInput = [],
      phoneInput = (case storage SAVBES_PHONE of
                      None \<Rightarrow> []
                    | Some p \<Rightarrow> if p \<noteq> [] then p else []),
      localStorage = storage, posted = [], sessionId = sid, logged = []\<rparr>"


section \<open>The document of a host page (static/js.js)\<close>

text \<open>
  The script runs on a page it does not know, so the document is a tree of elements. An
  element has an identity (\<open>label\<close>, the object a handler holds on to), a lower-case
  tag, an id, its classes, its attributes and its child elements. \<open>inner\<close> is the markup
  last assigned to its \<open>innerHTML\<close>, kept as the string that was assigned: the model does
  not parse the markup of a message into elements. Text nodes, layout and scrolling are
  not modelled.
\<close>

datatype element =
  Element (label: nat) (tag: string) (ident: string) (classes: "string list")
          (attrs: "(string \<times> jsstring) list") (inner: jsstring) (kids: "element list")

type_synonym path = "nat list"

fun at :: "element \<Rightarrow> path \<Rightarrow> element option" where
  "at e [] = Some e"
| "at e (i # p) = (if i < length (kids e) then at (kids e ! i) p else None)"

text \<open>
  \<open>find_id i d\<close> is where \<open>getElementById(i)\<close> finds its element: the first element in
  document order whose id is \<open>i\<close>.
\<close>

fun find_id :: "string \<Rightarrow> element \<Rightarrow> path option"
  and find_ids :: "string \<Rightarrow> nat \<Rightarrow> element list \<Rightarrow> path option" where
  "find_id i (Element l t d c a h ks) = (if d = i then Some [] else find_ids i 0 ks)"
| "find_ids i n [] = None"
| "find_ids i n (k # ks) =
     (case find_id i k of Some p \<Rightarrow> Some (n # p) | None \<Rightarrow> find_ids i (Suc n) ks)"

definition getElementById :: "string \<Rightarrow> element \<Rightarrow> element option" where
  "getElementById i d = (case find_id i d of None \<Rightarrow> None | Some p \<Rightarrow> at d p)"

text \<open>\<open>append_child p n d\<close>: the element at \<open>p\<close> gets \<open>n\<close> as its last child.\<close>

fun append_child :: "path \<Rightarrow> element \<Rightarrow> element \<Rightarrow> element" where
  "append_child [] n (Element l t d c a h ks) = Element l t d c a h (ks @ [n])"
| "append_child (i # p) n (Element l t d c a h ks) =
     Element l t d c a h (if i < length ks then ks[i := append_child p n (ks ! i)] else ks)"

text \<open>
  \<open>remove_at p d\<close>: the element at \<open>p\<close> leaves the document (\<open>remove()\<close>). The root
  itself stays.
\<close>

fun remove_at :: "path \<Rightarrow> element \<Rightarrow> element" where
  "remove_at [] e = e"
| "remove_at [i] (Element l t d c a h ks) = Element l t d c a h (take i ks @ drop (Suc i) ks)"
| "remove_at (i # j # p) (Element l t d c a h ks) =
     Element l t d c a h (if i < length ks then ks[i := remove_at (j # p) (ks ! i)] else ks)"

text \<open>
  \<open>nodes anc e\<close>: the elements of the subtree of \<open>e\<close> in document order, \<open>e\<close> first,
  each with what the selectors read of its ancestors, their tags and classes (the nearest
  ancestor first); \<open>anc\<close> are the ancestors of \<open>e\<close>.
\<close>

type_synonym ancestor = "string \<times> string list"

fun nodes :: "ancestor list \<Rightarrow> element \<Rightarrow> (ancestor list \<times> element) list" where
  "nodes anc (Element l t d c a h ks) =
     (anc, Element l t d c a h ks) # concat (map (nodes ((t, c) # anc)) ks)"

definition descendants :: "ancestor list \<Rightarrow> element \<Rightarrow> (ancestor list \<times> element) list" where
  "descendants anc e = concat (map (nodes ((tag e, classes e) # anc)) (kids e))"

definition has_class :: "string \<Rightarrow> element \<Rightarrow> bool" where
  "has_class c e \<longleftrightarrow> c \<in> set (classes e)"

text \<open>\<open>closest c (anc, e)\<close>: \<open>e.closest('.c')\<close> is not null.\<close>

definition closest :: "string \<Rightarrow> ancestor list \<times> element \<Rightarrow> bool" where
  "closest c n \<longleftrightarrow> has_class c (snd n) \<or> list_ex (\<lambda>a. c \<in> set (snd a)) (fst n)"

text \<open>\<open>in_form (anc, e)\<close>: \<open>e\<close> matches \<open>form *\<close>, it has a form among its ancestors.\<close>

definition in_form :: "ancestor list \<times> element \<Rightarrow> bool" where
  "in_form n \<longleftrightarrow> list_ex (\<lambda>a. fst a = ''form'') (fst n)"

text \<open>
  Attribute selectors. A value is compared as it is written, but for \<open>type\<close>, whose
  values an HTML document compares without regard to ASCII case.
\<close>

definition ascii_lower :: "jsstring \<Rightarrow> jsstring" where
  "ascii_lower s = map (\<lambda>c. if 65 \<le> c \<and> c \<le> 90 then c + 32 else c) s"

definition attr_is :: "string \<Rightarrow> jsstring \<Rightarrow> element \<Rightarrow> bool" where
  "attr_is a v e \<longleftrightarrow>
     (case map_of (attrs e) a of
        None \<Rightarrow> False
      | Some w \<Rightarrow> if a = ''type'' then ascii_lower w = ascii_lower v else w = v)"

definition attr_has :: "string \<Rightarrow> jsstring \<Rightarrow> element \<Rightarrow> bool" where
  "attr_has a v e \<longleftrightarrow>
     (case map_of (attrs e) a of None \<Rightarrow> False | Some w \<Rightarrow> v \<noteq> [] \<and> str_includes v w)"

definition is_input :: "element \<Rightarrow> bool" where
  "is_input e \<longleftrightarrow> tag e = ''input''"

text \<open>Fragments of Russian words the selectors look for in a placeholder.\<close>

definition SUB_ELEFON :: jsstring where
  "SUB_ELEFON = [1077, 1083, 1077, 1092, 1086, 1085]"

definition SUB_IMYA_LOWER :: jsstring where
  "SUB_IMYA_LOWER = [1080, 1084, 1103]"

definition SUB_IMYA_UPPER :: jsstring where
  "SUB_IMYA_UPPER = [1048, 1084, 1103]"

definition SUB_MYA :: jsstring where
  "SUB_MYA = [1084, 1103]"

text \<open>The selectors of \<open>fillPageForms\<close>, in the order of the source.\<close>

definition phone_in_form :: "element \<Rightarrow> bool" where
  "phone_in_form e \<longleftrightarrow>
     is_input e \<and> attr_is ''type'' (js ''tel'') e \<or>
     is_input e \<and> attr_is ''name'' (js ''phone'') e \<or>
     is_input e \<and> attr_has ''name'' (js ''PHONE'') e \<or>
     is_input e \<and> attr_has ''placeholder'' SUB_ELEFON e \<or>
     has_class ''t-input-phonemask'' e"

definition name_in_form :: "element \<Rightarrow> bool" where
  "name_in_form e \<longleftrightarrow>
     is_input e \<and> attr_is ''name'' (js ''name'') e \<or>
     is_input e \<and> attr_has ''name'' (js ''NAME'') e \<or>
     is_input e \<and> attr_has ''placeholder'' SUB_IMYA_LOWER e \<or>
     is_input e \<and> attr_has ''placeholder'' SUB_IMYA_UPPER e \<or>
     is_input e \<and> has_class ''t-input-name'' e"

definition email_in_form :: "element \<Rightarrow> bool" where
  "email_in_form e \<longleftrightarrow>
     is_input e \<and> attr_is ''type'' (js ''email'') e \<or>
     is_input e \<and> attr_is ''name'' (js ''email'') e \<or>
     is_input e \<and> attr_has ''name'' (js ''EMAIL'') e \<or>
     is_input e \<and> attr_has ''placeholder'' (js ''mail'') e \<or>
     is_input e \<and> attr_has ''placeholder'' (js ''Mail'') e"

definition phone_outside :: "element \<Rightarrow> bool" where
  "phone_outside e \<longleftrightarrow>
     is_input e \<and>
     (attr_is ''type'' (js ''tel'') e \<or> attr_has ''name'' (js ''phone'') e \<or>
      attr_has ''placeholder'' SUB_ELEFON e)"

definition name_outside :: "element \<Rightarrow> bool" where
  "name_outside e \<longleftrightarrow>
     is_input e \<and> (attr_has ''name'' (js ''name'') e \<or> attr_has ''placeholder'' SUB_MYA e)"

definition email_outside :: "element \<Rightarrow> bool" where
  "email_outside e \<longleftrightarrow>
     is_input e \<and>
     (attr_is ''type'' (js ''email'') e \<or> attr_has ''name'' (js ''email'') e \<or>
      attr_has ''placeholder'' (js ''mail'') e)"


section \<open>The state of a page that runs the widget script\<close>

text \<open>
  \<open>userData\<close> of the script: each field is \<open>null\<close> (\<open>None\<close>) until a contact form
  is submitted.
\<close>

record contact =
  name :: "jsstring option"
  phone :: "jsstring option"
  email :: "jsstring option"

datatype callback = ShowContactForm

text \<open>What the script writes to the console, one constructor for each call in the source.\<close>

datatype log =
    ContainerNotFound
  | ContainerHint
  | Initialised
  | FillStart contact
  | FilledPhone nat
  | FilledName nat
  | FilledEmail nat
  | FoundPhone nat
  | FoundName nat
  | FoundEmail nat
  | FetchError exn

text \<open>
  The page: the children of \<open>document.head\<close>, the tree under which elements are
  looked up, the \<open>value\<close> property of every element (by label), the synthetic events
  dispatched (target and type, in order), the next unused label, and what the closure of
  \<open>initChat\<close> and the browser hold: \<open>userData\<close>, the session id (\<open>sessionId\<close> in
  the script, \<open>session\<close> here), the pending
  timers (delay in milliseconds and callback), the requests sent (message and session
  id), the alerts shown and the console.
\<close>

record widget_page =
  head :: "element list"
  body :: element
  vals :: "nat \<Rightarrow> jsstring"
  dispatched :: "(nat \<times> string) list"
  fresh :: nat
  userData :: contact
  session :: jsstring
  timers :: "(nat \<times> callback) list"
  requests :: "(jsstring \<times> jsstring) list"
  alerts :: "jsstring list"
  console :: "log list"

definition CONTAINER :: string where
  "CONTAINER = ''savbes-chat-container''"

definition MESSAGES :: string where
  "MESSAGES = ''savbes-chat-messages''"

definition USER_INPUT :: string where
  "USER_INPUT = ''savbes-user-input''"

definition NAME_INPUT :: string where
  "NAME_INPUT = ''savbes-name-input''"

definition PHONE_INPUT :: string where
  "PHONE_INPUT = ''savbes-phone-input''"

definition EMAIL_INPUT :: string where
  "EMAIL_INPUT = ''savbes-email-input''"

definition CHAT_BLOCK :: string where
  "CHAT_BLOCK = ''savbes-chat-block''"

definition USER_MESSAGE :: string where
  "USER_MESSAGE = ''savbes-user-message''"

definition ASSISTANT_MESSAGE :: string where
  "ASSISTANT_MESSAGE = ''savbes-assistant-message''"

text \<open>The Russian texts of the script, by their meaning in English.\<close>

text \<open>\<open>Hello! I am the virtual assistant of SAVBES. How can I help? You can ask about our
  services, prices or the way we work.\<close>\<close>

definition WELCOME :: jsstring where
  "WELCOME =
    [1047, 1076, 1088, 1072, 1074, 1089, 1090, 1074, 1091, 1081, 1090, 1077, 33, 32, 1071,
     32, 1074, 1080, 1088, 1090, 1091, 1072, 1083, 1100, 1085, 1099, 1081, 32, 1087, 1086,
     1084, 1086, 1097, 1085, 1080, 1082, 32, 1082, 1086, 1084, 1087, 1072, 1085, 1080,
     1080, 32, 1057, 1040, 1042, 1041, 1045, 1057, 46, 32, 1063, 1077, 1084, 32, 1084,
     1086, 1075, 1091, 32, 1087, 1086, 1084, 1086, 1095, 1100, 63, 32, 1042, 1099, 32,
     1084, 1086, 1078, 1077, 1090, 1077, 32, 1089, 1087, 1088, 1086, 1089, 1080, 1090,
     1100, 32, 1086, 32, 1085, 1072, 1096, 1080, 1093, 32, 1091, 1089, 1083, 1091, 1075,
     1072, 1093, 44, 32, 1094, 1077, 1085, 1072, 1093, 32, 1080, 1083, 1080, 32, 1087,
     1088, 1086, 1094, 1077, 1089, 1089, 1077, 32, 1088, 1072, 1073, 1086, 1090, 1099, 46]"

text \<open>
  The markup of the welcome message as the template of \<open>initChat\<close> has it: the text
  between the line breaks and the indentation of the template.
\<close>

definition WELCOME_MARKUP :: jsstring where
  "WELCOME_MARKUP = 10 # replicate 20 32 @ WELCOME @ 10 # replicate 16 32"

text \<open>\<open>Sorry, an error occurred while processing the reply.\<close>\<close>

definition ERR_PROCESSING :: jsstring where
  "ERR_PROCESSING =
    [1048, 1079, 1074, 1080, 1085, 1080, 1090, 1077, 44, 32, 1087, 1088, 1086, 1080, 1079,
     1086, 1096, 1083, 1072, 32, 1086, 1096, 1080, 1073, 1082, 1072, 32, 1087, 1088, 1080,
     32, 1086, 1073, 1088, 1072, 1073, 1086, 1090, 1082, 1077, 32, 1086, 1090, 1074, 1077,
     1090, 1072, 46]"

text \<open>\<open>Sorry, an error occurred. Try later.\<close>\<close>

definition APOLOGY :: jsstring where
  "APOLOGY =
    [1048, 1079, 1074, 1080, 1085, 1080, 1090, 1077, 44, 32, 1087, 1088, 1086, 1080, 1079,
     1086, 1096, 1083, 1072, 32, 1086, 1096, 1080, 1073, 1082, 1072, 46, 32, 1055, 1086,
     1087, 1088, 1086, 1073, 1091, 1081, 1090, 1077, 32, 1087, 1086, 1079, 1078, 1077, 46]"

text \<open>\<open>I do not want to leave my contacts\<close>\<close>

definition REFUSAL :: jsstring where
  "REFUSAL =
    [1053, 1077, 32, 1093, 1086, 1095, 1091, 32, 1086, 1089, 1090, 1072, 1074, 1083, 1103,
     1090, 1100, 32, 1082, 1086, 1085, 1090, 1072, 1082, 1090, 1099]"

text \<open>\<open>Please enter a phone number\<close>\<close>

definition ALERT_PHONE :: jsstring where
  "ALERT_PHONE =
    [1055, 1086, 1078, 1072, 1083, 1091, 1081, 1089, 1090, 1072, 44, 32, 1074, 1074, 1077,
     1076, 1080, 1090, 1077, 32, 1085, 1086, 1084, 1077, 1088, 32, 1090, 1077, 1083, 1077,
     1092, 1086, 1085, 1072]"

text \<open>The placeholders: \<open>Enter your message...\<close>, \<open>Your name\<close>, \<open>Your phone\<close>,
  \<open>Your email (optional)\<close>.\<close>

definition PH_MESSAGE :: jsstring where
  "PH_MESSAGE =
    [1042, 1074, 1077, 1076, 1080, 1090, 1077, 32, 1074, 1072, 1096, 1077, 32, 1089, 1086,
     1086, 1073, 1097, 1077, 1085, 1080, 1077, 46, 46, 46]"

definition PH_NAME :: jsstring where
  "PH_NAME = [1042, 1072, 1096, 1077, 32, 1080, 1084, 1103]"

definition PH_PHONE :: jsstring where
  "PH_PHONE = [1042, 1072, 1096, 32, 1090, 1077, 1083, 1077, 1092, 1086, 1085]"

definition PH_EMAIL :: jsstring where
  "PH_EMAIL =
    [1042, 1072, 1096, 32, 101, 109, 97, 105, 108, 32, 40, 1086, 1087, 1094, 1080, 1086,
     1085, 1072, 1083, 1100, 1085, 1086, 41]"


section \<open>The elements the script creates\<close>

definition leaf :: "nat \<Rightarrow> string \<Rightarrow> string list \<Rightarrow> element" where
  "leaf l t cs = Element l t [] cs [] [] []"

text \<open>The \<open>style\<close> element \<open>initChat\<close> appends to the head.\<close>

definition styleElement :: "nat \<Rightarrow> element" where
  "styleElement l = leaf l ''style'' []"

text \<open>
  The element \<open>initChat\<close> builds from its template, labelled from \<open>l\<close> on (twelve
  elements): the block, its header, the list of messages with the welcome message, and
  the input area with the text input and the send button.
\<close>

definition messageDiv :: "nat \<Rightarrow> bool \<Rightarrow> jsstring \<Rightarrow> element" where
  "messageDiv l isUser markup =
     Element l ''div'' []
       [''savbes-message'', if isUser then USER_MESSAGE else ASSISTANT_MESSAGE] [] markup []"

definition chatElement :: "nat \<Rightarrow> element" where
  "chatElement l =
     Element l ''div'' [] [CHAT_BLOCK] [] []
       [Element (l + 1) ''div'' [] [''savbes-chat-header''] [] []
          [Element (l + 2) ''div'' [] [''savbes-chat-title''] [] []
             [leaf (l + 3) ''div'' [''savbes-chat-title-main''],
              leaf (l + 4) ''div'' [''savbes-chat-title-sub'']]],
        Element (l + 5) ''div'' MESSAGES [''savbes-chat-messages''] [] []
          [messageDiv (l + 6) False WELCOME_MARKUP],
        Element (l + 7) ''div'' [] [''savbes-input-area''] [] []
          [Element (l + 8) ''input'' USER_INPUT [''savbes-user-input'']
             [(''type'', js ''text''), (''placeholder'', PH_MESSAGE)] [] [],
           Element (l + 9) ''button'' ''savbes-send-button'' [''savbes-send-button''] [] []
             [Element (l + 10) ''svg'' [] [] [] [] [leaf (l + 11) ''path'' []]]]]"

text \<open>The contact form of \<open>showContactForm\<close>, labelled from \<open>l\<close> on (eight elements).\<close>

definition contactForm :: "nat \<Rightarrow> element" where
  "contactForm l =
     Element l ''div'' [] [''savbes-contact-form''] [] []
       [leaf (l + 1) ''div'' [''savbes-form-title''],
        Element (l + 2) ''input'' NAME_INPUT [''savbes-form-input'']
          [(''type'', js ''text''), (''placeholder'', PH_NAME)] [] [],
        Element (l + 3) ''input'' PHONE_INPUT [''savbes-form-input'']
          [(''type'', js ''tel''), (''placeholder'', PH_PHONE), (''required'', [])] [] [],
        Element (l + 4) ''input'' EMAIL_INPUT [''savbes-form-input'']
          [(''type'', js ''email''), (''placeholder'', PH_EMAIL)] [] [],
        Element (l + 5) ''div'' [] [''savbes-form-buttons''] [] []
          [leaf (l + 6) ''button'' [''savbes-form-submit''],
           leaf (l + 7) ''button'' [''savbes-form-cancel'']]]"


section \<open>The widget script (static/js.js)\<close>

text \<open>
  Every function takes the page and returns the page it leaves, or \<open>Inl\<close> the error
  that leaves the function: an exception no handler of the script catches, or the
  rejection of the promise of an \<open>async\<close> function. The model does not follow the
  page after such an error.
\<close>

subsection \<open>Rendering a message\<close>

text \<open>
  \<open>addMessage(message, isUser)\<close>. \<open>message.replace\<close> is the first thing that can
  fail: on anything but a string it throws a TypeError, and so does \<open>appendChild\<close> on a
  list of messages that is not in the document. A reply of the assistant with the
  sentinel is shown after \<open>message.replace("[SHOW_CONTACT_FORM]", "")\<close>, not after the
  replacement of the line feeds, and schedules the contact form half a second later.
\<close>

definition addMessage :: "jsval \<Rightarrow> bool \<Rightarrow> widget_page \<Rightarrow> exn + widget_page" where
  "addMessage message isUser st =
     (case message of
        JStr m \<Rightarrow>
          (case find_id MESSAGES (body st) of
             None \<Rightarrow> Inl TypeError
           | Some p \<Rightarrow>
               if \<not> isUser \<and> str_includes SENTINEL m then
                 Inr (st\<lparr>body := append_child p
                                  (messageDiv (fresh st) isUser (str_replace SENTINEL [] m))
                                  (body st),
                         fresh := Suc (fresh st),
                         timers := timers st @ [(500, ShowContactForm)]\<rparr>)
               else
                 Inr (st\<lparr>body := append_child p (messageDiv (fresh st) isUser (nl2br m))
                                  (body st),
                         fresh := Suc (fresh st)\<rparr>))
      | _ \<Rightarrow> Inl TypeError)"

text \<open>
  The children of the list of messages, in order: the transcript, with the contact forms
  that are open.
\<close>

definition children_of :: "string \<Rightarrow> element \<Rightarrow> element list" where
  "children_of i d = (case getElementById i d of None \<Rightarrow> [] | Some e \<Rightarrow> kids e)"

definition transcript :: "widget_page \<Rightarrow> element list" where
  "transcript st = children_of MESSAGES (body st)"

subsection \<open>The contact form\<close>

text \<open>\<open>showContactForm()\<close>: the form is appended to the list of messages, its inputs empty.\<close>

definition showContactForm :: "widget_page \<Rightarrow> exn + widget_page" where
  "showContactForm st =
     (case find_id MESSAGES (body st) of
        None \<Rightarrow> Inl TypeError
      | Some p \<Rightarrow>
          Inr (st\<lparr>body := append_child p (contactForm (fresh st)) (body st),
                  vals := (vals st)(fresh st + 2 := [], fresh st + 3 := [], fresh st + 4 := []),
                  fresh := fresh st + 8\<rparr>))"

text \<open>The browser runs the timer that is due first.\<close>

definition run_timer :: "widget_page \<Rightarrow> exn + widget_page" where
  "run_timer st =
     (case timers st of
        [] \<Rightarrow> Inr st
      | (delay, ShowContactForm) # ts \<Rightarrow> showContactForm (st\<lparr>timers := ts\<rparr>))"

subsection \<open>Filling the forms of the host page\<close>

text \<open>
  One matched element: its value is set, an \<open>input\<close> and a \<open>change\<close> event are
  dispatched on it, and the console names it. What the listeners of the host page do
  with the events is not modelled.
\<close>

definition set_input :: "jsstring \<Rightarrow> (nat \<Rightarrow> log) \<Rightarrow> widget_page \<Rightarrow> element \<Rightarrow> widget_page" where
  "set_input v entry st e =
     st\<lparr>vals := (vals st)(label e := v),
        dispatched := dispatched st @ [(label e, ''input''), (label e, ''change'')],
        console := console st @ [entry (label e)]\<rparr>"

text \<open>\<open>if (data.x) { elements.forEach(...) }\<close>: nothing for \<open>null\<close> and for the empty string.\<close>

definition fill_all ::
  "jsstring option \<Rightarrow> (nat \<Rightarrow> log) \<Rightarrow> element list \<Rightarrow> widget_page \<Rightarrow> widget_page" where
  "fill_all x entry es st =
     (case x of None \<Rightarrow> st | Some v \<Rightarrow> if v = [] then st else foldl (set_input v entry) st es)"

text \<open>
  The body of the loop over \<open>document.querySelectorAll('form')\<close>. A form inside the
  chat block is skipped; in any other form every element below it that a selector
  matches is filled, with no look at where the element is.
\<close>

definition fill_form :: "contact \<Rightarrow> widget_page \<Rightarrow> ancestor list \<times> element \<Rightarrow> widget_page" where
  "fill_form data st form =
     (if closest CHAT_BLOCK form then st
      else
        (let inside = map snd (descendants (fst form) (snd form));
             st1 = fill_all (phone data) FilledPhone (filter phone_in_form inside) st;
             st2 = fill_all (name data) FilledName (filter name_in_form inside) st1
         in fill_all (email data) FilledEmail (filter email_in_form inside) st2))"

text \<open>
  \<open>loose sel d\<close>: the elements \<open>sel:not(form *)\<close> selects in the document that the
  loop body does not skip, those with no chat block at or above them.
\<close>

definition loose :: "(element \<Rightarrow> bool) \<Rightarrow> element \<Rightarrow> element list" where
  "loose sel d =
     map snd (filter (\<lambda>n. \<not> closest CHAT_BLOCK n)
                (filter (\<lambda>n. sel (snd n) \<and> \<not> in_form n) (nodes [] d)))"

text \<open>
  \<open>fillPageForms(data)\<close>. Nothing in its \<open>try\<close> block throws in this model, so the
  \<open>catch\<close> block has no branch here.
\<close>

definition fillPageForms :: "contact \<Rightarrow> widget_page \<Rightarrow> widget_page" where
  "fillPageForms data st =
     (let st0 = st\<lparr>console := console st @ [FillStart data]\<rparr>;
          st1 = foldl (fill_form data) st0
                  (filter (\<lambda>n. tag (snd n) = ''form'') (nodes [] (body st)));
          st2 = fill_all (phone data) FoundPhone (loose phone_outside (body st)) st1;
          st3 = fill_all (name data) FoundName (loose name_outside (body st)) st2
      in fill_all (email data) FoundEmail (loose email_outside (body st)) st3)"

subsection \<open>Sending a message\<close>

text \<open>
  \<open>sendMessage(message)\<close> runs in two parts. \<open>sendMessage_sync\<close> is what runs when it
  is called, up to the \<open>await\<close> of the request: the guard, the user's message, the
  cleared input, the request. \<open>sendMessage_resume\<close> is what runs when the request has
  settled, with the answer of the environment. \<open>sendMessage\<close> is both, with nothing in
  between.
\<close>

definition sendMessage_sync :: "jsstring \<Rightarrow> widget_page \<Rightarrow> exn + widget_page" where
  "sendMessage_sync message st =
     (if trim message = [] then Inr st
      else
        (case addMessage (JStr message) True st of
           Inl e \<Rightarrow> Inl e
         | Inr st1 \<Rightarrow>
            (case getElementById USER_INPUT (body st1) of
               None \<Rightarrow> Inl TypeError
             | Some inp \<Rightarrow>
                 Inr (st1\<lparr>vals := (vals st1)(label inp := []),
                          requests := requests st1 @ [(message, session st1)]\<rparr>))))"

text \<open>The \<open>try\<close> block after \<open>response.json()\<close> has resolved to \<open>data\<close>.\<close>

definition on_reply :: "jsval \<Rightarrow> widget_page \<Rightarrow> exn + widget_page" where
  "on_reply data st =
     (if \<not> truthy data then addMessage (JStr ERR_PROCESSING) False st
      else
        (case get_field data RESPONSE of
           Inl e \<Rightarrow> Inl e
         | Inr r \<Rightarrow>
             if \<not> truthy r then addMessage (JStr ERR_PROCESSING) False st
             else if typeof_object r then
               (case get_field r TEXT of
                  Inl e \<Rightarrow> Inl e
                | Inr t \<Rightarrow> if truthy t then addMessage t False st else addMessage r False st)
             else addMessage r False st))"

text \<open>The \<open>catch\<close> block. The \<open>try\<close> block changes nothing on the page before it throws.\<close>

definition on_error :: "exn \<Rightarrow> widget_page \<Rightarrow> exn + widget_page" where
  "on_error e st = addMessage (JStr APOLOGY) False (st\<lparr>console := console st @ [FetchError e]\<rparr>)"

definition sendMessage_resume :: "outcome \<Rightarrow> widget_page \<Rightarrow> exn + widget_page" where
  "sendMessage_resume answer st =
     (case answer of
        NetworkError \<Rightarrow> on_error NetworkFailure st
      | ParseError \<Rightarrow> on_error SyntaxError st
      | Body data \<Rightarrow>
         (case on_reply data st of
            Inl e \<Rightarrow> on_error e st
          | Inr st' \<Rightarrow> Inr st'))"

definition sendMessage :: "jsstring \<Rightarrow> outcome \<Rightarrow> widget_page \<Rightarrow> exn + widget_page" where
  "sendMessage message answer st =
     (if trim message = [] then Inr st
      else
        (case sendMessage_sync message st of
           Inl e \<Rightarrow> Inl e
         | Inr st1 \<Rightarrow> sendMessage_resume answer st1))"

text \<open>
  The handler of the send button and of the Enter key:
  \<open>const message = userInput.value.trim(); if (message) sendMessage(message)\<close>.
\<close>

definition clickSend :: "outcome \<Rightarrow> widget_page \<Rightarrow> exn + widget_page" where
  "clickSend answer st =
     (case getElementById USER_INPUT (body st) of
        None \<Rightarrow> Inl TypeError
      | Some inp \<Rightarrow>
          (let message = trim (vals st (label inp))
           in if message = [] then Inr st else sendMessage message answer st))"

subsection \<open>Submitting and cancelling the contact form\<close>

text \<open>
  \<open>submitContactForm(formDiv)\<close>, up to the \<open>await\<close> inside the \<open>sendMessage\<close> it
  calls; \<open>formDiv\<close> is where the form is in the document. The three values are read from
  the first elements with the ids of the inputs, wherever they are.
\<close>

definition contactText :: "jsstring \<Rightarrow> jsstring \<Rightarrow> jsstring \<Rightarrow> jsstring" where
  "contactText nm ph em =
     (if nm \<noteq> [] then nm @ js '', '' else []) @ ph @ (if em \<noteq> [] then js '', '' @ em else [])"

definition submitContactForm :: "path \<Rightarrow> widget_page \<Rightarrow> exn + widget_page" where
  "submitContactForm formDiv st =
     (case getElementById NAME_INPUT (body st) of
        None \<Rightarrow> Inl TypeError
      | Some n \<Rightarrow>
     (case getElementById PHONE_INPUT (body st) of
        None \<Rightarrow> Inl TypeError
      | Some p \<Rightarrow>
     (case getElementById EMAIL_INPUT (body st) of
        None \<Rightarrow> Inl TypeError
      | Some e \<Rightarrow>
          (let nm = vals st (label n); ph = vals st (label p); em = vals st (label e)
           in if ph \<noteq> [] then
                (let data = \<lparr>name = Some nm, phone = Some ph, email = Some em\<rparr>;
                     st1 = st\<lparr>body := remove_at formDiv (body st), userData := data\<rparr>
                 in sendMessage_sync (contactText nm ph em) (fillPageForms data st1))
              else Inr (st\<lparr>alerts := alerts st @ [ALERT_PHONE]\<rparr>)))))"

definition cancelContactForm :: "path \<Rightarrow> widget_page \<Rightarrow> exn + widget_page" where
  "cancelContactForm formDiv st =
     sendMessage_sync REFUSAL (st\<lparr>body := remove_at formDiv (body st)\<rparr>)"

subsection \<open>Initialisation\<close>

text \<open>
  \<open>initChat()\<close>, with the session id it draws. The style sheet goes to the head before
  the container is looked up.
\<close>

definition initChat :: "jsstring \<Rightarrow> widget_page \<Rightarrow> exn + widget_page" where
  "initChat sid st =
     (let st1 = st\<lparr>userData := \<lparr>name = None, phone = None, email = None\<rparr>,
                   head := head st @ [styleElement (fresh st)],
                   fresh := Suc (fresh st)\<rparr>
      in case find_id CONTAINER (body st1) of
           None \<Rightarrow> Inr (st1\<lparr>console := console st1 @ [ContainerNotFound, ContainerHint]\<rparr>)
         | Some p \<Rightarrow>
             Inr (st1\<lparr>body := append_child p (chatElement (fresh st1)) (body st1),
                      vals := (vals st1)(fresh st1 + 8 := []),
                      fresh := fresh st1 + 12,
                      session := sid,
                      console := console st1 @ [Initialised]\<rparr>))"


section \<open>Observations and example pages\<close>

text \<open>
  \<open>after r f\<close>: what a run that returned leaves in the component \<open>f\<close> of the page;
  \<open>then_do\<close> runs the next step on the page a step has left.
\<close>

definition after :: "exn + 'a \<Rightarrow> ('a \<Rightarrow> 'b) \<Rightarrow> 'b option" where
  "after r f = (case r of Inl e \<Rightarrow> None | Inr x \<Rightarrow> Some (f x))"

definition then_do :: "exn + 'a \<Rightarrow> ('a \<Rightarrow> exn + 'a) \<Rightarrow> exn + 'a" where
  "then_do r f = (case r of Inl e \<Rightarrow> Inl e | Inr x \<Rightarrow> f x)"

text \<open>The markup of the entries of the transcript, the value of an element, the stored phone.\<close>

definition markup :: "widget_page \<Rightarrow> jsstring list" where
  "markup st = map inner (transcript st)"

definition value_of :: "nat \<Rightarrow> widget_page \<Rightarrow> jsstring" where
  "value_of l st = vals st l"

definition stored_phone :: "inline_page \<Rightarrow> jsstring option" where
  "stored_phone pg = localStorage pg SAVBES_PHONE"

text \<open>
  \<open>widget_input l st\<close>: the element labelled \<open>l\<close> is an input of the document at or
  below a chat block. \<open>reloaded_phone pg\<close>: what the phone input of the inline page holds
  after the next load of the page, with the storage \<open>pg\<close> has left.
\<close>

definition widget_input :: "nat \<Rightarrow> widget_page \<Rightarrow> bool" where
  "widget_input l st \<longleftrightarrow>
     list_ex (\<lambda>n. label (snd n) = l \<and> is_input (snd n) \<and> closest CHAT_BLOCK n)
       (nodes [] (body st))"

definition reloaded_phone :: "inline_page \<Rightarrow> jsstring" where
  "reloaded_phone pg = phoneInput (page_load (localStorage pg) (js ''chat_s2''))"

text \<open>
  The visitor types \<open>v\<close> into the element labelled \<open>l\<close>. The value is stored as
  typed: what a browser strips from the value of an input (line breaks, and the white
  space around an email address) is not modelled, and no value used below has any.
\<close>

definition typed :: "nat \<Rightarrow> jsstring \<Rightarrow> widget_page \<Rightarrow> exn + widget_page" where
  "typed l v st = Inr (st\<lparr>vals := (vals st)(l := v)\<rparr>)"

text \<open>
  What \<open>fillPageForms\<close> never writes: everything but the values, the events and the
  console.
\<close>

definition frame :: "widget_page \<Rightarrow> element list \<times> element \<times> nat \<times> contact \<times> jsstring \<times>
    (nat \<times> callback) list \<times> (jsstring \<times> jsstring) list \<times> jsstring list" where
  "frame st =
     (head st, body st, fresh st, userData st, session st, timers st, requests st, alerts st)"

text \<open>A page before the script has run: the document \<open>d\<close>, labels below \<open>n\<close> in use.\<close>

definition page_of :: "element \<Rightarrow> nat \<Rightarrow> widget_page" where
  "page_of d n =
     \<lparr>head = [], body = d, vals = (\<lambda>l. []), dispatched = [], fresh = n,
      userData = \<lparr>name = None, phone = None, email = None\<rparr>, session = [], timers = [],
      requests = [], alerts = [], console = []\<rparr>"

text \<open>A host page with the container in its body, and the same page once \<open>initChat\<close> has run.\<close>

definition example_host :: widget_page where
  "example_host =
     page_of (Element 0 ''body'' [] [] [] [] [Element 1 ''div'' CONTAINER [] [] [] []]) 2"

definition example_widget :: widget_page where
  "example_widget =
     (case initChat (js ''s1'') example_host of Inr st \<Rightarrow> st | Inl e \<Rightarrow> example_host)"

text \<open>A host page without the container.\<close>

definition bare_host :: widget_page where
  "bare_host = page_of (Element 0 ''body'' [] [] [] [] [leaf 1 ''p'' []]) 2"

text \<open>
  The widget with a contact form open (the form is the second child of the list of
  messages; its inputs are labelled 17, 18 and 19), as the visitor has filled it in.
\<close>

definition example_form :: "jsstring \<Rightarrow> jsstring \<Rightarrow> jsstring \<Rightarrow> widget_page" where
  "example_form nm ph em =
     (case then_do (then_do (then_do (showContactForm example_widget) (typed 17 nm))
             (typed 18 ph)) (typed 19 em) of
        Inr st \<Rightarrow> st
      | Inl e \<Rightarrow> example_widget)"

text \<open>
  The widget with two contact forms open, the second and the third child of the list of
  messages (the phone input of the first has label 18, that of the second label 26), with
  \<open>a\<close> typed into the phone input of the first and \<open>b\<close> into that of the second.
\<close>

definition example_forms :: "jsstring \<Rightarrow> jsstring \<Rightarrow> widget_page" where
  "example_forms a b =
     (case then_do (then_do (then_do (showContactForm example_widget) showContactForm)
             (typed 18 a)) (typed 26 b) of
        Inr st \<Rightarrow> st
      | Inl e \<Rightarrow> example_widget)"

text \<open>
  A host page whose container stands inside a form of the host, next to a phone input of
  the host. The widget is initialised, two replies with the sentinel have each opened a
  contact form, and the visitor has typed a phone number into the first one (label 20;
  the phone input of the second form has label 28).
\<close>

definition nested_host :: widget_page where
  "nested_host =
     page_of (Element 0 ''body'' [] [] [] []
       [Element 1 ''form'' [] [] [] []
          [Element 2 ''input'' [] [] [(''type'', js ''tel''), (''name'', js ''phone'')] [] [],
           Element 3 ''div'' CONTAINER [] [] [] []]]) 4"

definition nested_widget :: "exn + widget_page" where
  "nested_widget =
     then_do (then_do (then_do (initChat (js ''s2'') nested_host) showContactForm)
       showContactForm) (typed 20 (js ''123''))"

text \<open>The inline page, freshly loaded with nothing stored, with a text in its input.\<close>

definition example_inline :: "jsstring \<Rightarrow> inline_page" where
  "example_inline s = (page_load Map.empty (js ''chat_s1''))\<lparr>userInput := s\<rparr>"

text \<open>A reply of the assistant that holds a phone number.\<close>

definition phone_reply :: outcome where
  "phone_reply = Body (JObj [(RESPONSE, JStr (js ''Call +7 999 123-45-67''))])"


section \<open>Strings\<close>

lemma trim_Nil_iff: "trim s = [] \<longleftrightarrow> (\<forall>c\<in>set s. is_white c)"
proof
  assume "trim s = []"
  then have all: "\<forall>c\<in>set (dropWhile is_white s). is_white c"
    by (simp add: trim_def)
  have "dropWhile is_white s = []"
  proof (rule ccontr)
    assume ne: "dropWhile is_white s \<noteq> []"
    then have "\<not> is_white (hd (dropWhile is_white s))" by (rule hd_dropWhile)
    moreover from ne have "hd (dropWhile is_white s) \<in> set (dropWhile is_white s)" by simp
    ultimately show False using all by blast
  qed
  then show "\<forall>c\<in>set s. is_white c" by simp
next
  assume "\<forall>c\<in>set s. is_white c"
  then have "dropWhile is_white s = []" by simp
  then show "trim s = []" by (simp only: trim_def rev.simps dropWhile.simps)
qed

lemma str_includes_iff: "str_includes p s \<longleftrightarrow> (\<exists>a b. s = a @ p @ b)"
proof (induction s)
  case Nil
  then show ?case by auto
next
  case (Cons c cs)
  show ?case
  proof
    assume "str_includes p (c # cs)"
    then consider "prefix p (c # cs)" | "str_includes p cs" by auto
    then show "\<exists>a b. c # cs = a @ p @ b"
    proof cases
      case 1
      then obtain b where "c # cs = p @ b" by (auto simp: prefix_def)
      then have "c # cs = [] @ p @ b" by simp
      then show ?thesis by blast
    next
      case 2
      with Cons.IH obtain a b where "cs = a @ p @ b" by blast
      then have "c # cs = (c # a) @ p @ b" by simp
      then show ?thesis by blast
    qed
  next
    assume "\<exists>a b. c # cs = a @ p @ b"
    then obtain a b where ab: "c # cs = a @ p @ b" by blast
    show "str_includes p (c # cs)"
    proof (cases a)
      case Nil
      with ab have "prefix p (c # cs)" by (simp add: prefix_def)
      then show ?thesis by simp
    next
      case (Cons x a')
      with ab have "cs = a' @ p @ b" by simp
      with Cons.IH have "str_includes p cs" by blast
      then show ?thesis by simp
    qed
  qed
qed

lemma nl2br_append: "nl2br (a @ b) = nl2br a @ nl2br b"
  by (simp add: nl2br_def)

lemma nl2br_id: "10 \<notin> set s \<Longrightarrow> nl2br s = s"
  by (induction s) (auto simp: nl2br_def)

lemma SENTINEL_value:
  "SENTINEL = [91, 83, 72, 79, 87, 95, 67, 79, 78, 84, 65, 67, 84, 95, 70, 79, 82, 77, 93]"
  by (simp add: SENTINEL_def js_def)

lemma nl2br_SENTINEL: "nl2br SENTINEL = SENTINEL"
  by (rule nl2br_id) (simp add: SENTINEL_value)

lemma nl2br_keeps_sentinel:
  assumes "str_includes SENTINEL m"
  shows "str_includes SENTINEL (nl2br m)"
proof -
  from assms obtain a b where "m = a @ SENTINEL @ b" by (auto simp: str_includes_iff)
  then have "nl2br m = nl2br a @ SENTINEL @ nl2br b"
    by (simp add: nl2br_append nl2br_SENTINEL)
  then show ?thesis unfolding str_includes_iff by blast
qed

lemma no_sentinel_APOLOGY: "\<not> str_includes SENTINEL APOLOGY"
  by (simp add: SENTINEL_value APOLOGY_def)

lemma nl2br_APOLOGY: "nl2br APOLOGY = APOLOGY"
  by (rule nl2br_id) (simp add: APOLOGY_def)

lemma no_sentinel_ERR: "\<not> str_includes SENTINEL ERR_PROCESSING"
  by (simp add: SENTINEL_value ERR_PROCESSING_def)

lemma nl2br_ERR: "nl2br ERR_PROCESSING = ERR_PROCESSING"
  by (rule nl2br_id) (simp add: ERR_PROCESSING_def)


section \<open>Looking up, appending and removing elements\<close>

lemma find_ids_snoc:
  "find_id i n = None \<Longrightarrow> find_ids i m (ks @ [n]) = find_ids i m ks"
  by (induction ks arbitrary: m) (auto split: option.splits)

lemma find_ids_update:
  "find_id i k' = find_id i (ks ! j) \<Longrightarrow> j < length ks \<Longrightarrow>
   find_ids i m (ks[j := k']) = find_ids i m ks"
proof (induction ks arbitrary: m j)
  case Nil
  then show ?case by simp
next
  case (Cons k ks)
  then show ?case by (cases j) (auto split: option.splits)
qed

lemma find_id_append:
  "find_id i n = None \<Longrightarrow> find_id i (append_child p n d) = find_id i d"
proof (induction p arbitrary: d)
  case Nil
  then show ?case by (cases d) (simp add: find_ids_snoc)
next
  case (Cons j p)
  then show ?case by (cases d) (simp add: find_ids_update)
qed

lemma at_append_same:
  "at d p = Some e \<Longrightarrow>
   at (append_child p n d) p =
     Some (Element (label e) (tag e) (ident e) (classes e) (attrs e) (inner e) (kids e @ [n]))"
proof (induction p arbitrary: d)
  case Nil
  then show ?case by (cases d) auto
next
  case (Cons j p)
  then show ?case by (cases d) (simp split: if_splits)
qed

lemma find_ids_Some:
  "find_ids i m ks = Some q \<Longrightarrow>
   \<exists>j p. q = (m + j) # p \<and> j < length ks \<and> find_id i (ks ! j) = Some p \<and>
         (\<forall>j' < j. find_id i (ks ! j') = None)"
proof (induction ks arbitrary: m)
  case Nil
  then show ?case by simp
next
  case (Cons k ks)
  show ?case
  proof (cases "find_id i k")
    case None
    with Cons.prems have "find_ids i (Suc m) ks = Some q" by simp
    from Cons.IH [OF this] obtain j p where
      h: "q = (Suc m + j) # p" "j < length ks" "find_id i (ks ! j) = Some p"
         "\<forall>j' < j. find_id i (ks ! j') = None" by blast
    have "\<forall>j' < Suc j. find_id i ((k # ks) ! j') = None"
      using None h(4) by (auto simp: less_Suc_eq_0_disj)
    with h show ?thesis by (intro exI [of _ "Suc j"] exI [of _ p]) simp
  next
    case (Some p)
    with Cons.prems show ?thesis by (intro exI [of _ 0] exI [of _ p]) simp
  qed
qed

lemma find_id_at:
  "find_id i d = Some p \<Longrightarrow> \<exists>e. at d p = Some e \<and> ident e = i"
proof (induction p arbitrary: d)
  case Nil
  then show ?case by (cases d) (auto split: if_splits dest: find_ids_Some)
next
  case (Cons j p)
  obtain l t x c a h ks where d: "d = Element l t x c a h ks" by (cases d)
  with Cons.prems have "find_ids i 0 ks = Some (j # p)" by (auto split: if_splits)
  from find_ids_Some [OF this] have "j < length ks" "find_id i (ks ! j) = Some p" by auto
  with Cons.IH d show ?case by simp
qed


lemma ident_remove_at: "ident (remove_at q d) = ident d"
  by (induction q d rule: remove_at.induct) simp_all

lemma find_id_root: "find_id i d = Some [] \<longleftrightarrow> ident d = i"
  by (cases d) (auto dest: find_ids_Some)

lemma find_id_remove:
  "find_id i d = Some p \<Longrightarrow> q \<noteq> [] \<Longrightarrow> find_id i (remove_at (p @ q) d) = Some p"
proof (induction p arbitrary: d)
  case Nil
  then show ?case by (simp add: find_id_root ident_remove_at)
next
  case (Cons j p)
  obtain l t x c a h ks where d: "d = Element l t x c a h ks" by (cases d)
  from Cons.prems(2) obtain y ys where pq: "p @ q = y # ys" by (cases "p @ q") auto
  from Cons.prems(1) d have ne: "x \<noteq> i" and f: "find_ids i 0 ks = Some (j # p)"
    by (auto split: if_splits)
  from find_ids_Some [OF f] have j: "j < length ks" and fj: "find_id i (ks ! j) = Some p"
    by auto
  from Cons.IH [OF fj Cons.prems(2)] fj
  have "find_id i (remove_at (y # ys) (ks ! j)) = find_id i (ks ! j)" by (simp add: pq)
  from find_ids_update [OF this j, of 0] f ne j show ?case
    by (simp add: d pq)
qed

lemma at_remove:
  "at d p = Some e \<Longrightarrow>
   \<exists>e'. at (remove_at (p @ [k]) d) p = Some e' \<and> kids e' = take k (kids e) @ drop (Suc k) (kids e)"
proof (induction p arbitrary: d)
  case Nil
  then show ?case by (cases d) auto
next
  case (Cons j p)
  obtain l t x c a h ks where d: "d = Element l t x c a h ks" by (cases d)
  obtain y ys where pq: "p @ [k] = y # ys" by (cases "p @ [k]") auto
  from Cons.prems d have j: "j < length ks" and a: "at (ks ! j) p = Some e"
    by (auto split: if_splits)
  from Cons.IH [OF a] j show ?case by (simp add: d pq)
qed

lemma children_of_remove:
  assumes "find_id i d = Some p"
  shows "children_of i (remove_at (p @ [k]) d) =
           take k (children_of i d) @ drop (Suc k) (children_of i d)"
proof -
  from find_id_at [OF assms] obtain e where e: "at d p = Some e" by blast
  from at_remove [OF e, of k] obtain e' where
    "at (remove_at (p @ [k]) d) p = Some e'" "kids e' = take k (kids e) @ drop (Suc k) (kids e)"
    by blast
  with e assms show ?thesis
    by (simp add: children_of_def getElementById_def find_id_remove)
qed

lemma foldl_keeps: "(\<And>s x. g (f s x) = g s) \<Longrightarrow> g (foldl f s xs) = g s"
  by (induction xs arbitrary: s) simp_all

lemma frame_set_input: "frame (set_input v entry st e) = frame st"
  by (simp add: frame_def set_input_def)

lemma frame_fill_all: "frame (fill_all x entry es st) = frame st"
  by (simp add: fill_all_def foldl_keeps [where g = frame] frame_set_input split: option.splits)

lemma frame_fill_form: "frame (fill_form data st form) = frame st"
  by (simp add: fill_form_def Let_def frame_fill_all)

lemma frame_fillPageForms: "frame (fillPageForms data st) = frame st"
proof -
  have "frame (st\<lparr>console := console st @ [FillStart data]\<rparr>) = frame st"
    by (simp add: frame_def)
  then show ?thesis
    by (simp add: fillPageForms_def Let_def frame_fill_all
        foldl_keeps [where g = frame] frame_fill_form)
qed

lemma str_includes_mid: "str_includes b (a @ b @ c)"
  unfolding str_includes_iff by blast


section \<open>Rendering and sending\<close>

lemma js_Nil: "js s = [] \<longleftrightarrow> s = []"
  by (simp add: js_def)

lemma messageDiv_user:
  "messageDiv l True m =
     Element l ''div'' [] [''savbes-message'', ''savbes-user-message''] [] m []"
  by (simp add: messageDiv_def USER_MESSAGE_def)

lemma messageDiv_assistant:
  "messageDiv l False m =
     Element l ''div'' [] [''savbes-message'', ''savbes-assistant-message''] [] m []"
  by (simp add: messageDiv_def ASSISTANT_MESSAGE_def)

lemma find_id_messageDiv: "i \<noteq> [] \<Longrightarrow> find_id i (messageDiv l u m) = None"
  by (auto simp: messageDiv_def)

lemma children_of_append:
  assumes "find_id i d = Some p" and "find_id i n = None"
  shows "children_of i (append_child p n d) = children_of i d @ [n]"
proof -
  from find_id_at [OF assms(1)] obtain e where e: "at d p = Some e" by blast
  from assms have "find_id i (append_child p n d) = Some p" by (simp add: find_id_append)
  with e assms(1) show ?thesis
    by (simp add: children_of_def getElementById_def at_append_same)
qed

lemma getElementById_None: "getElementById i d = None \<longleftrightarrow> find_id i d = None"
proof (cases "find_id i d")
  case None
  then show ?thesis by (simp add: getElementById_def)
next
  case (Some q)
  from find_id_at [OF Some] show ?thesis by (auto simp: getElementById_def Some)
qed

lemma ids_nonempty: "MESSAGES \<noteq> []" "USER_INPUT \<noteq> []"
  by (simp_all add: MESSAGES_def USER_INPUT_def)

text \<open>What \<open>addMessage\<close> does with a string when the list of messages is in the document.\<close>

lemma addMessage_string:
  assumes "find_id MESSAGES (body st) = Some p"
  shows "\<exists>st'. addMessage (JStr m) u st = Inr st' \<and>
           transcript st' = transcript st @
             [messageDiv (fresh st) u
                (if \<not> u \<and> str_includes SENTINEL m then str_replace SENTINEL [] m else nl2br m)] \<and>
           find_id MESSAGES (body st') = Some p \<and>
           find_id USER_INPUT (body st') = find_id USER_INPUT (body st) \<and>
           fresh st' = Suc (fresh st) \<and>
           timers st' = (if \<not> u \<and> str_includes SENTINEL m
                         then timers st @ [(500, ShowContactForm)] else timers st) \<and>
           requests st' = requests st \<and> session st' = session st \<and> vals st' = vals st \<and>
           userData st' = userData st \<and> alerts st' = alerts st \<and> head st' = head st \<and>
           dispatched st' = dispatched st \<and> console st' = console st"
  using assms
  by (simp add: addMessage_def transcript_def children_of_append find_id_append
      find_id_messageDiv ids_nonempty)

lemma sendMessage_sync_ok:
  assumes "find_id MESSAGES (body st) = Some p" and "find_id USER_INPUT (body st) \<noteq> None"
    and "trim message \<noteq> []"
  shows "\<exists>st'. sendMessage_sync message st = Inr st' \<and>
           transcript st' = transcript st @ [messageDiv (fresh st) True (nl2br message)] \<and>
           find_id MESSAGES (body st') = Some p \<and>
           fresh st' = Suc (fresh st) \<and> timers st' = timers st \<and>
           requests st' = requests st @ [(message, session st)] \<and>
           session st' = session st \<and> userData st' = userData st \<and>
           alerts st' = alerts st \<and> head st' = head st \<and>
           dispatched st' = dispatched st \<and> console st' = console st"
proof -
  from addMessage_string [OF assms(1), of message True] obtain st1 where
    a: "addMessage (JStr message) True st = Inr st1"
    and t: "transcript st1 = transcript st @ [messageDiv (fresh st) True (nl2br message)]"
    and m: "find_id MESSAGES (body st1) = Some p"
    and u: "find_id USER_INPUT (body st1) = find_id USER_INPUT (body st)"
    and r: "fresh st1 = Suc (fresh st)" "timers st1 = timers st" "requests st1 = requests st"
      "session st1 = session st" "userData st1 = userData st" "alerts st1 = alerts st"
      "head st1 = head st" "dispatched st1 = dispatched st" "console st1 = console st"
    by auto
  from u assms(2) obtain inp where i: "getElementById USER_INPUT (body st1) = Some inp"
    using getElementById_None [of USER_INPUT "body st1"] by auto
  from t have t': "children_of MESSAGES (body st1) =
      children_of MESSAGES (body st) @ [messageDiv (fresh st) True (nl2br message)]"
    by (simp add: transcript_def)
  show ?thesis
    using assms(3) a i m r t' by (simp add: sendMessage_sync_def transcript_def)
qed

lemma on_error_ok:
  assumes "find_id MESSAGES (body st) = Some p"
  shows "\<exists>st'. on_error e st = Inr st' \<and>
           transcript st' = transcript st @ [messageDiv (fresh st) False APOLOGY] \<and>
           timers st' = timers st \<and> requests st' = requests st \<and>
           userData st' = userData st"
proof -
  let ?st = "st\<lparr>console := console st @ [FetchError e]\<rparr>"
  have "find_id MESSAGES (body ?st) = Some p" using assms by simp
  from addMessage_string [OF this, of APOLOGY False] show ?thesis
    by (auto simp: on_error_def no_sentinel_APOLOGY nl2br_APOLOGY transcript_def)
qed

lemma on_reply_string:
  assumes "map_of kvs RESPONSE = Some (JStr X)" and "X \<noteq> []"
  shows "on_reply (JObj kvs) st = addMessage (JStr X) False st"
  using assms by (simp add: on_reply_def)

lemma on_reply_text:
  assumes "map_of kvs RESPONSE = Some (JObj tkvs)" and "map_of tkvs TEXT = Some (JStr X)"
    and "X \<noteq> []"
  shows "on_reply (JObj kvs) st = addMessage (JStr X) False st"
  using assms by (simp add: on_reply_def)

text \<open>A request that is answered by a reply the script reads as the string \<open>X\<close>.\<close>

lemma sendMessage_rendered:
  assumes "find_id MESSAGES (body st) \<noteq> None" and "find_id USER_INPUT (body st) \<noteq> None"
    and "trim message \<noteq> []" and "\<And>s. on_reply data s = addMessage (JStr X) False s"
    and "\<not> str_includes SENTINEL X"
  shows "\<exists>st'. sendMessage message (Body data) st = Inr st' \<and>
           transcript st' = transcript st @
             [messageDiv (fresh st) True (nl2br message),
              messageDiv (Suc (fresh st)) False (nl2br X)] \<and>
           timers st' = timers st"
proof -
  from assms(1) obtain p where p: "find_id MESSAGES (body st) = Some p" by blast
  from sendMessage_sync_ok [OF p assms(2,3)] obtain st1 where
    s: "sendMessage_sync message st = Inr st1"
    and t: "transcript st1 = transcript st @ [messageDiv (fresh st) True (nl2br message)]"
    and m: "find_id MESSAGES (body st1) = Some p"
    and r: "fresh st1 = Suc (fresh st)" "timers st1 = timers st"
    by blast
  from addMessage_string [OF m, of X False] assms(5) obtain st2 where
    "addMessage (JStr X) False st1 = Inr st2"
    "transcript st2 = transcript st1 @ [messageDiv (fresh st1) False (nl2br X)]"
    "timers st2 = timers st1"
    by auto
  with s t r assms(3,4) show ?thesis
    by (simp add: sendMessage_def sendMessage_resume_def)
qed

lemma sendMessage1_string:
  assumes "trim (userInput pg) \<noteq> []" and "map_of kvs RESPONSE = Some (JStr X)"
  shows "\<exists>pg'. sendMessage1 (Body (JObj kvs)) pg = Inr pg' \<and>
           chatBody pg' = chatBody pg @ [(True, trim (userInput pg)), (False, X)]"
  using assms
  by (simp add: sendMessage1_def Let_def addMessage1_def toDOMString_def on_reply1_def
      split: option.splits)

lemma frame_fields:
  assumes "frame st' = frame st"
  shows "body st' = body st" "fresh st' = fresh st" "userData st' = userData st"
    "session st' = session st" "requests st' = requests st" "timers st' = timers st"
  using assms by (simp_all add: frame_def)

lemma set_contactText: "set ph \<subseteq> set (contactText nm ph em)"
  by (auto simp: contactText_def)

text \<open>
  What \<open>submitContactForm\<close> does when the phone it reads is not empty. The three values
  are those of the first elements of the document with the ids of the inputs; the form
  that leaves the document is the one at \<open>p @ [k]\<close>, whichever form the values were read
  from.
\<close>

lemma submitContactForm_by_id:
  assumes "find_id MESSAGES (body st) = Some p"
    and "getElementById NAME_INPUT (body st) = Some n"
    and "getElementById PHONE_INPUT (body st) = Some q"
    and "getElementById EMAIL_INPUT (body st) = Some e"
    and "nm = vals st (label n)" and "ph = vals st (label q)" and "em = vals st (label e)"
    and "ph \<noteq> []"
    and "find_id USER_INPUT (remove_at (p @ [k]) (body st)) \<noteq> None"
    and "ct = contactText nm ph em"
  shows "\<exists>st'. submitContactForm (p @ [k]) st = Inr st' \<and>
           userData st' = \<lparr>name = Some nm, phone = Some ph, email = Some em\<rparr> \<and>
           transcript st' =
             take k (transcript st) @ drop (Suc k) (transcript st) @
             (if trim ct = [] then [] else [messageDiv (fresh st) True (nl2br ct)]) \<and>
           requests st' =
             requests st @ (if trim ct = [] then [] else [(ct, session st)]) \<and>
           str_includes ph ct \<and> (nm \<noteq> [] \<longrightarrow> str_includes nm ct) \<and>
           (em \<noteq> [] \<longrightarrow> str_includes em ct) \<and>
           ((\<exists>c\<in>set ph. \<not> is_white c) \<longrightarrow> trim ct \<noteq> [])"
proof -
  let ?data = "\<lparr>name = Some nm, phone = Some ph, email = Some em\<rparr>"
  let ?st1 = "st\<lparr>body := remove_at (p @ [k]) (body st), userData := ?data\<rparr>"
  let ?st2 = "fillPageForms ?data ?st1"
  have run: "submitContactForm (p @ [k]) st = sendMessage_sync ct ?st2"
    using assms(2-8,10) by (simp add: submitContactForm_def Let_def)
  have fr: "frame ?st2 = frame ?st1" by (rule frame_fillPageForms)
  note f = frame_fields [OF fr]
  have b: "body ?st2 = remove_at (p @ [k]) (body st)" using f(1) by simp
  have tr: "transcript ?st2 = take k (transcript st) @ drop (Suc k) (transcript st)"
    by (simp add: transcript_def b children_of_remove [OF assms(1)])
  have m2: "find_id MESSAGES (body ?st2) = Some p"
    by (simp add: b find_id_remove [OF assms(1)])
  have u2: "find_id USER_INPUT (body ?st2) \<noteq> None" using assms(9) by (simp add: b)
  have inc: "str_includes ph ct" "nm \<noteq> [] \<longrightarrow> str_includes nm ct"
    "em \<noteq> [] \<longrightarrow> str_includes em ct"
  proof -
    have "ct = (if nm \<noteq> [] then nm @ js '', '' else []) @ ph @
               (if em \<noteq> [] then js '', '' @ em else [])"
      by (simp add: assms(10) contactText_def)
    then show "str_includes ph ct" by (simp only: str_includes_mid)
    show "nm \<noteq> [] \<longrightarrow> str_includes nm ct"
    proof
      assume "nm \<noteq> []"
      then have "ct = [] @ nm @ (js '', '' @ ph @ (if em \<noteq> [] then js '', '' @ em else []))"
        by (simp add: assms(10) contactText_def)
      then show "str_includes nm ct" by (simp only: str_includes_mid)
    qed
    show "em \<noteq> [] \<longrightarrow> str_includes em ct"
    proof
      assume "em \<noteq> []"
      then have "ct = ((if nm \<noteq> [] then nm @ js '', '' else []) @ ph @ js '', '') @ em @ []"
        by (simp add: assms(10) contactText_def)
      then show "str_includes em ct" by (simp only: str_includes_mid)
    qed
  qed
  have nb: "(\<exists>c\<in>set ph. \<not> is_white c) \<longrightarrow> trim ct \<noteq> []"
    using set_contactText [of ph nm em] by (auto simp: trim_Nil_iff assms(10))
  show ?thesis
  proof (cases "trim ct = []")
    case True
    then have "sendMessage_sync ct ?st2 = Inr ?st2" by (simp add: sendMessage_sync_def)
    with run tr f True inc nb show ?thesis by simp
  next
    case False
    from sendMessage_sync_ok [OF m2 u2 False] obtain st' where
      "sendMessage_sync ct ?st2 = Inr st'"
      "transcript st' = transcript ?st2 @ [messageDiv (fresh ?st2) True (nl2br ct)]"
      "requests st' = requests ?st2 @ [(ct, session ?st2)]"
      "userData st' = userData ?st2"
      by blast
    with run tr f False inc nb show ?thesis by simp
  qed
qed


section \<open>The example pages\<close>

lemmas names = CONTAINER_def MESSAGES_def USER_INPUT_def NAME_INPUT_def PHONE_INPUT_def
  EMAIL_INPUT_def CHAT_BLOCK_def USER_MESSAGE_def ASSISTANT_MESSAGE_def

lemmas selectors = phone_in_form_def name_in_form_def email_in_form_def phone_outside_def
  name_outside_def email_outside_def is_input_def attr_is_def attr_has_def has_class_def
  closest_def in_form_def ascii_lower_def SUB_ELEFON_def SUB_IMYA_LOWER_def
  SUB_IMYA_UPPER_def SUB_MYA_def PH_NAME_def PH_PHONE_def PH_EMAIL_def PH_MESSAGE_def

lemmas elements = chatElement_def contactForm_def leaf_def messageDiv_def styleElement_def

lemmas runs = then_do_def after_def typed_def page_of_def initChat_def showContactForm_def
  submitContactForm_def sendMessage_sync_def addMessage_def contactText_def
  getElementById_def fillPageForms_def fill_form_def fill_all_def set_input_def loose_def
  descendants_def trim_def is_white_def js_def Let_def

lemmas rx_defs = phoneRegex_def seqs_def chr_def sep_def digit_def is_digit_def is_white_def

lemma example_widget_body:
  "body example_widget =
     Element 0 ''body'' [] [] [] [] [Element 1 ''div'' CONTAINER [] [] [] [chatElement 3]]"
  by (simp add: example_widget_def initChat_def example_host_def page_of_def CONTAINER_def)

lemma example_widget_mounted:
  "find_id MESSAGES (body example_widget) = Some [0, 0, 1]"
  "find_id USER_INPUT (body example_widget) = Some [0, 0, 2, 0]"
  by (simp_all add: example_widget_body names elements)

lemma example_widget_fields:
  "fresh example_widget = 15" "timers example_widget = []" "requests example_widget = []"
  "session example_widget = js ''s1''"
  by (simp_all add: example_widget_def initChat_def example_host_def page_of_def CONTAINER_def)

lemma example_widget_transcript: "transcript example_widget = [messageDiv 9 False WELCOME_MARKUP]"
  by (simp add: transcript_def children_of_def getElementById_def example_widget_mounted)
     (simp add: example_widget_body chatElement_def)

lemma trim_hi: "trim (js ''hi'') = js ''hi''"
  by (simp add: trim_def js_def is_white_def)

lemma example_inline_input: "userInput (example_inline s) = s"
  by (simp add: example_inline_def)

lemma example_inline_fields:
  "chatBody (example_inline s) = [(False, GREETING1)]" "posted (example_inline s) = []"
  "sessionId (example_inline s) = js ''chat_s1''"
  by (simp_all add: example_inline_def page_load_def)

lemma example_form_body:
  "body (example_form nm ph em) = append_child [0, 0, 1] (contactForm 15) (body example_widget)"
  by (simp add: example_form_def showContactForm_def example_widget_mounted
      example_widget_fields then_do_def typed_def)

lemma example_form_fields:
  "fresh (example_form nm ph em) = 23" "requests (example_form nm ph em) = []"
  "session (example_form nm ph em) = js ''s1''"
  "vals (example_form nm ph em) 17 = nm" "vals (example_form nm ph em) 18 = ph"
  "vals (example_form nm ph em) 19 = em"
  by (simp_all add: example_form_def showContactForm_def example_widget_mounted
      example_widget_fields then_do_def typed_def)

lemma example_form_lookup:
  "find_id MESSAGES (body (example_form nm ph em)) = Some [0, 0, 1]"
  "map_option label (getElementById NAME_INPUT (body (example_form nm ph em))) = Some 17"
  "map_option label (getElementById PHONE_INPUT (body (example_form nm ph em))) = Some 18"
  "map_option label (getElementById EMAIL_INPUT (body (example_form nm ph em))) = Some 19"
  "find_id USER_INPUT (remove_at ([0, 0, 1] @ [1]) (body (example_form nm ph em))) \<noteq> None"
  "transcript (example_form nm ph em) = [messageDiv 9 False WELCOME_MARKUP, contactForm 15]"
  by (simp_all add: example_form_body example_widget_body transcript_def children_of_def
      getElementById_def names elements)

lemma example_forms_lookup:
  "map_option label (getElementById NAME_INPUT (body (example_forms a b))) = Some 17"
  "map_option label (getElementById PHONE_INPUT (body (example_forms a b))) = Some 18"
  "map_option label (getElementById EMAIL_INPUT (body (example_forms a b))) = Some 19"
  "transcript (example_forms a b) =
     [messageDiv 9 False WELCOME_MARKUP, contactForm 15, contactForm 23]"
  "vals (example_forms a b) 18 = a" "vals (example_forms a b) 26 = b"
  "requests (example_forms a b) = []" "alerts (example_forms a b) = []"
  by (simp_all add: example_forms_def showContactForm_def example_widget_mounted
      example_widget_fields then_do_def typed_def example_widget_body transcript_def
      children_of_def getElementById_def names elements example_widget_def initChat_def
      example_host_def page_of_def)


section \<open>The claims\<close>

subsection \<open>Replies with the sentinel\<close>

text \<open>
  Claim C1. A reply of the assistant that holds the sentinel is to be shown with every
  occurrence of the sentinel removed, and the contact form is to open after the delay.
  The code removes the first occurrence only: on the example widget the reply made of
  the sentinel twice is shown as the sentinel, which the visitor reads. The form is
  scheduled after 500 milliseconds and opens when the timer runs.
\<close>

theorem second_sentinel_stays_visible:
  "after (addMessage (JStr (SENTINEL @ SENTINEL)) False example_widget) markup
     = Some [WELCOME_MARKUP, SENTINEL] \<and>
   after (addMessage (JStr (SENTINEL @ SENTINEL)) False example_widget) timers
     = Some [(500, ShowContactForm)] \<and>
   after (then_do (addMessage (JStr (SENTINEL @ SENTINEL)) False example_widget) run_timer)
     transcript
     = Some [messageDiv 9 False WELCOME_MARKUP, messageDiv 15 False SENTINEL, contactForm 16]"
proof -
  have i: "str_includes SENTINEL (SENTINEL @ SENTINEL)"
    unfolding str_includes_iff by (metis append_Nil)
  have r: "str_replace SENTINEL [] (SENTINEL @ SENTINEL) = SENTINEL"
    by (simp add: SENTINEL_value)
  from addMessage_string [OF example_widget_mounted(1), of "SENTINEL @ SENTINEL" False]
  obtain st1 where
    a: "addMessage (JStr (SENTINEL @ SENTINEL)) False example_widget = Inr st1"
    and t: "transcript st1 = [messageDiv 9 False WELCOME_MARKUP, messageDiv 15 False SENTINEL]"
    and m: "find_id MESSAGES (body st1) = Some [0, 0, 1]"
    and f: "fresh st1 = 16" "timers st1 = [(500, ShowContactForm)]"
    by (auto simp: i r example_widget_fields example_widget_transcript)
  have c: "find_id MESSAGES (contactForm 16) = None"
    by (simp add: contactForm_def names leaf_def)
  have "children_of MESSAGES (append_child [0, 0, 1] (contactForm 16) (body st1))
      = children_of MESSAGES (body st1) @ [contactForm 16]"
    by (rule children_of_append [OF m c])
  with t have s: "children_of MESSAGES (append_child [0, 0, 1] (contactForm 16) (body st1))
      = [messageDiv 9 False WELCOME_MARKUP, messageDiv 15 False SENTINEL, contactForm 16]"
    by (simp add: transcript_def)
  let ?st2 = "st1\<lparr>timers := [], body := append_child [0, 0, 1] (contactForm 16) (body st1),
                   vals := (vals st1)(18 := [], 19 := [], 20 := []), fresh := 24\<rparr>"
  have rt: "run_timer st1 = Inr ?st2"
    by (simp add: run_timer_def f showContactForm_def m)
  have bx: "body ?st2 = append_child [0, 0, 1] (contactForm 16) (body st1)" by simp
  have tx: "transcript ?st2
      = [messageDiv 9 False WELCOME_MARKUP, messageDiv 15 False SENTINEL, contactForm 16]"
    unfolding transcript_def bx by (rule s)
  have "after (run_timer st1) transcript
      = Some [messageDiv 9 False WELCOME_MARKUP, messageDiv 15 False SENTINEL, contactForm 16]"
    by (simp only: rt after_def sum.case tx)
  with a t f show ?thesis
    by (simp add: after_def then_do_def markup_def messageDiv_def)
qed

subsection \<open>Replies that are an object with a text\<close>

text \<open>
  Claim C2, as amended. In the widget script a body \<open>{response: {text: X}}\<close> with a
  non-empty string \<open>X\<close> answers a message that passes the guard as follows: when \<open>X\<close>
  does not hold the sentinel, the transcript gains the user's message and the assistant's
  message (a \<open>div\<close> with the classes of a message of the assistant) whose markup is
  \<open>X\<close> with every line feed replaced by \<open><br>\<close>, which is \<open>X\<close> itself when
  \<open>X\<close> has no line feed. The widget script accepts both envelopes:
  the body \<open>{response: X}\<close> leaves exactly the page the body \<open>{response: {text: X}}\<close>
  leaves. The inline page accepts the bare string, which it shows as the text \<open>X\<close>.
\<close>

theorem text_reply_rendered:
  assumes "find_id MESSAGES (body st) \<noteq> None" and "find_id USER_INPUT (body st) \<noteq> None"
    and "trim message \<noteq> []" and "trim (userInput pg) \<noteq> []"
    and "map_of kvs RESPONSE = Some (JObj tkvs)" and "map_of tkvs TEXT = Some (JStr X)"
    and "map_of bare RESPONSE = Some (JStr X)"
    and "X \<noteq> []"
  shows "(\<not> str_includes SENTINEL X \<longrightarrow>
           (\<exists>st'. sendMessage message (Body (JObj kvs)) st = Inr st' \<and>
              transcript st' = transcript st @
                [Element (fresh st) ''div'' [] [''savbes-message'', ''savbes-user-message''] []
                   (nl2br message) [],
                 Element (Suc (fresh st)) ''div'' [] [''savbes-message'', ''savbes-assistant-message''] []
                   (nl2br X) []] \<and>
              (10 \<notin> set X \<longrightarrow> nl2br X = X))) \<and>
         sendMessage message (Body (JObj bare)) st = sendMessage message (Body (JObj kvs)) st \<and>
         (\<exists>pg'. sendMessage1 (Body (JObj bare)) pg = Inr pg' \<and>
            chatBody pg' = chatBody pg @ [(True, trim (userInput pg)), (False, X)])"
proof -
  have old: "(\<not> str_includes SENTINEL X \<longrightarrow>
           (\<exists>st'. sendMessage message (Body (JObj kvs)) st = Inr st' \<and>
              transcript st' = transcript st @
                [messageDiv (fresh st) True (nl2br message),
                 messageDiv (Suc (fresh st)) False (nl2br X)] \<and>
              (10 \<notin> set X \<longrightarrow> nl2br X = X))) \<and>
         sendMessage message (Body (JObj bare)) st = sendMessage message (Body (JObj kvs)) st \<and>
         (\<exists>pg'. sendMessage1 (Body (JObj bare)) pg = Inr pg' \<and>
            chatBody pg' = chatBody pg @ [(True, trim (userInput pg)), (False, X)])"
  proof (intro conjI impI)
    assume x: "\<not> str_includes SENTINEL X"
    have "\<And>s. on_reply (JObj kvs) s = addMessage (JStr X) False s"
      using assms(5,6,8) by (simp add: on_reply_text)
    from sendMessage_rendered [OF assms(1,2,3) this x]
    show "\<exists>st'. sendMessage message (Body (JObj kvs)) st = Inr st' \<and>
                transcript st' = transcript st @
                  [messageDiv (fresh st) True (nl2br message),
                   messageDiv (Suc (fresh st)) False (nl2br X)] \<and>
                (10 \<notin> set X \<longrightarrow> nl2br X = X)"
      by (auto simp: nl2br_id)
  next
    show "sendMessage message (Body (JObj bare)) st = sendMessage message (Body (JObj kvs)) st"
    proof -
      have "\<And>s. sendMessage_resume (Body (JObj bare)) s = sendMessage_resume (Body (JObj kvs)) s"
        using assms(5,6,7,8)
        by (simp add: sendMessage_resume_def on_reply_text on_reply_string)
      then show ?thesis by (simp add: sendMessage_def split: sum.splits)
    qed
  next
    show "\<exists>pg'. sendMessage1 (Body (JObj bare)) pg = Inr pg' \<and>
              chatBody pg' = chatBody pg @ [(True, trim (userInput pg)), (False, X)]"
      by (rule sendMessage1_string [OF assms(4,7)])
  qed
  then show ?thesis unfolding messageDiv_user messageDiv_assistant .
qed

text \<open>The reply \<open>yo\<close> to the message \<open>hi\<close> on the example pages, in both envelopes.\<close>

theorem text_reply_rendered_witness:
  "(\<exists>st'. sendMessage (js ''hi'') (Body (JObj [(RESPONSE, JObj [(TEXT, JStr (js ''yo''))])]))
            example_widget = Inr st' \<and>
      transcript st' =
        [Element 9 ''div'' [] [''savbes-message'', ''savbes-assistant-message''] []
           WELCOME_MARKUP [],
         Element 15 ''div'' [] [''savbes-message'', ''savbes-user-message''] []
           (js ''hi'') [],
         Element 16 ''div'' [] [''savbes-message'', ''savbes-assistant-message''] []
           (js ''yo'') []]) \<and>
   sendMessage (js ''hi'') (Body (JObj [(RESPONSE, JStr (js ''yo''))])) example_widget =
   sendMessage (js ''hi'') (Body (JObj [(RESPONSE, JObj [(TEXT, JStr (js ''yo''))])]))
     example_widget \<and>
   (\<exists>pg'. sendMessage1 (Body (JObj [(RESPONSE, JStr (js ''yo''))])) (example_inline (js ''hi''))
            = Inr pg' \<and>
      chatBody pg' = [(False, GREETING1), (True, js ''hi''), (False, js ''yo'')])"
proof -
  have n: "nl2br (js ''hi'') = js ''hi''" "nl2br (js ''yo'') = js ''yo''"
    by (rule nl2br_id, simp add: js_def)+
  have x: "\<not> str_includes SENTINEL (js ''yo'')"
    by (simp add: SENTINEL_value js_def)
  have h: "find_id MESSAGES (body example_widget) \<noteq> None"
    "find_id USER_INPUT (body example_widget) \<noteq> None"
    "trim (js ''hi'') \<noteq> []" "trim (userInput (example_inline (js ''hi''))) \<noteq> []"
    "map_of [(RESPONSE, JObj [(TEXT, JStr (js ''yo''))])] RESPONSE
       = Some (JObj [(TEXT, JStr (js ''yo''))])"
    "map_of [(TEXT, JStr (js ''yo''))] TEXT = Some (JStr (js ''yo''))"
    "map_of [(RESPONSE, JStr (js ''yo''))] RESPONSE = Some (JStr (js ''yo''))"
    "js ''yo'' \<noteq> []"
    by (simp_all add: example_widget_mounted trim_hi example_inline_input js_Nil)
  from text_reply_rendered [OF h] x
  show ?thesis
    by (simp add: messageDiv_user messageDiv_assistant trim_hi n example_widget_fields
        example_widget_transcript example_inline_input example_inline_fields)
qed

text \<open>
  The claim as stated fails in three places. The inline page shows the object of the
  reply \<open>{response: {text: "yo"}}\<close> as the text \<open>[object Object]\<close>. The widget script
  shows the text \<open>a\<close>, line feed, \<open>b\<close> as \<open>a<br>b\<close>, and answers an empty text with
  its apology: the empty text sends the object itself to \<open>addMessage\<close>, which throws.
\<close>

theorem text_reply_counterexample:
  "after (sendMessage1 (Body (JObj [(RESPONSE, JObj [(TEXT, JStr (js ''yo''))])]))
            (example_inline (js ''hi''))) chatBody
     = Some [(False, GREETING1), (True, js ''hi''), (False, js ''[object Object]'')] \<and>
   js ''[object Object]'' \<noteq> js ''yo'' \<and>
   after (sendMessage (js ''hi'') (Body (JObj [(RESPONSE, JObj [(TEXT, JStr [97, 10, 98])])]))
            example_widget) markup
     = Some [WELCOME_MARKUP, js ''hi'', js ''a<br>b''] \<and>
   js ''a<br>b'' \<noteq> [97, 10, 98] \<and>
   after (sendMessage (js ''hi'') (Body (JObj [(RESPONSE, JObj [(TEXT, JStr [])])]))
            example_widget) markup
     = Some [WELCOME_MARKUP, js ''hi'', APOLOGY] \<and>
   APOLOGY \<noteq> []"
proof -
  have n: "nl2br (js ''hi'') = js ''hi''" by (rule nl2br_id) (simp add: js_def)
  have m: "find_id MESSAGES (body example_widget) = Some [0, 0, 1]"
    "find_id USER_INPUT (body example_widget) \<noteq> None"
    "trim (js ''hi'') \<noteq> []"
    by (simp_all add: example_widget_mounted trim_hi js_Nil)
  from sendMessage_sync_ok [OF m] obtain st1 where
    s: "sendMessage_sync (js ''hi'') example_widget = Inr st1"
    and t: "transcript st1 = transcript example_widget @ [messageDiv 15 True (js ''hi'')]"
    and p: "find_id MESSAGES (body st1) = Some [0, 0, 1]"
    by (auto simp: n example_widget_fields)
  have k: "js ''toString'' \<noteq> js ''text''" by (simp add: js_def)
  have 1: "after (sendMessage1 (Body (JObj [(RESPONSE, JObj [(TEXT, JStr (js ''yo''))])]))
            (example_inline (js ''hi''))) chatBody
     = Some [(False, GREETING1), (True, js ''hi''), (False, js ''[object Object]'')]"
    by (simp add: after_def sendMessage1_def example_inline_input example_inline_fields
        trim_hi js_Nil Let_def addMessage1_def toDOMString_def on_reply1_def TEXT_def
        k split: option.splits)
  have 2: "js ''[object Object]'' \<noteq> js ''yo''" by (simp add: js_def)
  have 3: "after (sendMessage (js ''hi'')
              (Body (JObj [(RESPONSE, JObj [(TEXT, JStr [97, 10, 98])])])) example_widget) markup
     = Some [WELCOME_MARKUP, js ''hi'', js ''a<br>b'']"
    using addMessage_string [OF p, of "[97, 10, 98]" False] s t m(3)
    by (auto simp: after_def markup_def sendMessage_def sendMessage_resume_def on_reply_def
        example_widget_transcript messageDiv_def SENTINEL_value nl2br_def BR_def js_def)
  have 4: "js ''a<br>b'' \<noteq> [97, 10, 98]" by (simp add: js_def)
  have 5: "after (sendMessage (js ''hi'') (Body (JObj [(RESPONSE, JObj [(TEXT, JStr [])])]))
            example_widget) markup = Some [WELCOME_MARKUP, js ''hi'', APOLOGY]"
    using on_error_ok [OF p, of TypeError] s t m(3)
    by (auto simp: after_def markup_def sendMessage_def sendMessage_resume_def on_reply_def
        addMessage_def example_widget_transcript messageDiv_def)
  have 6: "APOLOGY \<noteq> []" by (simp add: APOLOGY_def)
  from 1 2 3 4 5 6 show ?thesis by blast
qed

subsection \<open>Replies that are a bare string\<close>

text \<open>
  Claim C3, as amended. A body \<open>{response: X}\<close> with a string \<open>X\<close> answers a message
  that passes the guard. In the widget script, when \<open>X\<close> is not empty and does not hold
  the sentinel, the transcript gains the user's message and the assistant's message (a
  \<open>div\<close> with the classes of a message of the assistant) whose markup is \<open>X\<close> with
  every line feed replaced by \<open><br>\<close>. In the inline page the
  transcript gains the user's message and the assistant's message whose text is \<open>X\<close>
  itself: that page converts nothing.
\<close>

theorem string_reply_rendered:
  assumes "find_id MESSAGES (body st) \<noteq> None" and "find_id USER_INPUT (body st) \<noteq> None"
    and "trim message \<noteq> []" and "trim (userInput pg) \<noteq> []"
    and "map_of kvs RESPONSE = Some (JStr X)"
  shows "(X \<noteq> [] \<and> \<not> str_includes SENTINEL X \<longrightarrow>
           (\<exists>st'. sendMessage message (Body (JObj kvs)) st = Inr st' \<and>
              transcript st' = transcript st @
                [Element (fresh st) ''div'' [] [''savbes-message'', ''savbes-user-message''] []
                   (nl2br message) [],
                 Element (Suc (fresh st)) ''div'' [] [''savbes-message'', ''savbes-assistant-message''] []
                   (nl2br X) []])) \<and>
         (\<exists>pg'. sendMessage1 (Body (JObj kvs)) pg = Inr pg' \<and>
            chatBody pg' = chatBody pg @ [(True, trim (userInput pg)), (False, X)])"
proof -
  have old: "(X \<noteq> [] \<and> \<not> str_includes SENTINEL X \<longrightarrow>
           (\<exists>st'. sendMessage message (Body (JObj kvs)) st = Inr st' \<and>
              transcript st' = transcript st @
                [messageDiv (fresh st) True (nl2br message),
                 messageDiv (Suc (fresh st)) False (nl2br X)])) \<and>
         (\<exists>pg'. sendMessage1 (Body (JObj kvs)) pg = Inr pg' \<and>
            chatBody pg' = chatBody pg @ [(True, trim (userInput pg)), (False, X)])"
  proof (intro conjI impI)
    assume x: "X \<noteq> [] \<and> \<not> str_includes SENTINEL X"
    then have "\<And>s. on_reply (JObj kvs) s = addMessage (JStr X) False s"
      using assms(5) by (simp add: on_reply_string)
    from sendMessage_rendered [OF assms(1,2,3) this] x
    show "\<exists>st'. sendMessage message (Body (JObj kvs)) st = Inr st' \<and>
                transcript st' = transcript st @
                  [messageDiv (fresh st) True (nl2br message),
                   messageDiv (Suc (fresh st)) False (nl2br X)]"
      by blast
  next
    show "\<exists>pg'. sendMessage1 (Body (JObj kvs)) pg = Inr pg' \<and>
              chatBody pg' = chatBody pg @ [(True, trim (userInput pg)), (False, X)]"
      by (rule sendMessage1_string [OF assms(4,5)])
  qed
  then show ?thesis unfolding messageDiv_user messageDiv_assistant .
qed

text \<open>The reply \<open>a\<close>, line feed, \<open>b\<close> to the message \<open>hi\<close> on the example pages.\<close>

theorem string_reply_rendered_witness:
  "(\<exists>st'. sendMessage (js ''hi'') (Body (JObj [(RESPONSE, JStr [97, 10, 98])])) example_widget
            = Inr st' \<and>
      transcript st' =
        [Element 9 ''div'' [] [''savbes-message'', ''savbes-assistant-message''] []
           WELCOME_MARKUP [],
         Element 15 ''div'' [] [''savbes-message'', ''savbes-user-message''] []
           (js ''hi'') [],
         Element 16 ''div'' [] [''savbes-message'', ''savbes-assistant-message''] []
           (js ''a<br>b'') []]) \<and>
   (\<exists>pg'. sendMessage1 (Body (JObj [(RESPONSE, JStr [97, 10, 98])])) (example_inline (js ''hi''))
            = Inr pg' \<and>
      chatBody pg' = [(False, GREETING1), (True, js ''hi''), (False, [97, 10, 98])])"
proof -
  have n: "nl2br (js ''hi'') = js ''hi''" by (rule nl2br_id) (simp add: js_def)
  have b: "nl2br [97, 10, 98] = js ''a<br>b''" by (simp add: nl2br_def BR_def js_def)
  have x: "[97, 10, 98] \<noteq> [] \<and> \<not> str_includes SENTINEL [97, 10, 98]"
    by (simp add: SENTINEL_value)
  have h: "find_id MESSAGES (body example_widget) \<noteq> None"
    "find_id USER_INPUT (body example_widget) \<noteq> None"
    "trim (js ''hi'') \<noteq> []" "trim (userInput (example_inline (js ''hi''))) \<noteq> []"
    "map_of [(RESPONSE, JStr [97, 10, 98])] RESPONSE = Some (JStr [97, 10, 98])"
    by (simp_all add: example_widget_mounted trim_hi example_inline_input js_Nil)
  from string_reply_rendered [OF h] x
  show ?thesis
    by (simp add: messageDiv_user messageDiv_assistant trim_hi n b example_widget_fields
        example_widget_transcript example_inline_input example_inline_fields)
qed

text \<open>
  The claim as stated fails in three places. The inline page shows the reply \<open>a\<close>, line
  feed, \<open>b\<close> as it is, which is not the reply with its line feed converted. The widget
  script answers the empty reply with its message about an error in the reply, and shows
  a reply made of the sentinel and a line feed as the line feed alone, unconverted.
\<close>

theorem string_reply_counterexample:
  "after (sendMessage1 (Body (JObj [(RESPONSE, JStr [97, 10, 98])])) (example_inline (js ''hi'')))
     chatBody = Some [(False, GREETING1), (True, js ''hi''), (False, [97, 10, 98])] \<and>
   [97, 10, 98] \<noteq> nl2br [97, 10, 98] \<and>
   after (sendMessage (js ''hi'') (Body (JObj [(RESPONSE, JStr [])])) example_widget) markup
     = Some [WELCOME_MARKUP, js ''hi'', ERR_PROCESSING] \<and>
   ERR_PROCESSING \<noteq> nl2br [] \<and>
   after (sendMessage (js ''hi'') (Body (JObj [(RESPONSE, JStr (SENTINEL @ [10]))]))
            example_widget) markup
     = Some [WELCOME_MARKUP, js ''hi'', [10]] \<and>
   [10] \<noteq> nl2br (SENTINEL @ [10])"
proof -
  have n: "nl2br (js ''hi'') = js ''hi''" by (rule nl2br_id) (simp add: js_def)
  have m: "find_id MESSAGES (body example_widget) = Some [0, 0, 1]"
    "find_id USER_INPUT (body example_widget) \<noteq> None"
    "trim (js ''hi'') \<noteq> []"
    by (simp_all add: example_widget_mounted trim_hi js_Nil)
  from sendMessage_sync_ok [OF m] obtain st1 where
    s: "sendMessage_sync (js ''hi'') example_widget = Inr st1"
    and t: "transcript st1 = transcript example_widget @ [messageDiv 15 True (js ''hi'')]"
    and p: "find_id MESSAGES (body st1) = Some [0, 0, 1]"
    by (auto simp: n example_widget_fields)
  have 1: "after (sendMessage1 (Body (JObj [(RESPONSE, JStr [97, 10, 98])]))
      (example_inline (js ''hi''))) chatBody
      = Some [(False, GREETING1), (True, js ''hi''), (False, [97, 10, 98])]"
    using sendMessage1_string [of "example_inline (js ''hi'')" "[(RESPONSE, JStr [97, 10, 98])]"
        "[97, 10, 98]"]
    by (auto simp: after_def example_inline_input example_inline_fields trim_hi js_Nil)
  have 2: "[97, 10, 98] \<noteq> nl2br [97, 10, 98]" by (simp add: nl2br_def BR_def js_def)
  have 3: "after (sendMessage (js ''hi'') (Body (JObj [(RESPONSE, JStr [])])) example_widget)
      markup = Some [WELCOME_MARKUP, js ''hi'', ERR_PROCESSING]"
    using addMessage_string [OF p, of ERR_PROCESSING False] s t m(3)
    by (auto simp: after_def markup_def sendMessage_def sendMessage_resume_def on_reply_def
        no_sentinel_ERR nl2br_ERR example_widget_transcript messageDiv_def)
  have 4: "ERR_PROCESSING \<noteq> nl2br []" by (simp add: nl2br_def ERR_PROCESSING_def)
  have i: "str_includes SENTINEL (SENTINEL @ [10])"
    unfolding str_includes_iff by (metis append_Nil)
  have r: "str_replace SENTINEL [] (SENTINEL @ [10]) = [10]" by (simp add: SENTINEL_value)
  have 5: "after (sendMessage (js ''hi'') (Body (JObj [(RESPONSE, JStr (SENTINEL @ [10]))]))
      example_widget) markup = Some [WELCOME_MARKUP, js ''hi'', [10]]"
    using addMessage_string [OF p, of "SENTINEL @ [10]" False] s t m(3)
    by (auto simp: after_def markup_def sendMessage_def sendMessage_resume_def on_reply_def
        i r example_widget_transcript messageDiv_def SENTINEL_value)
  have 6: "[10] \<noteq> nl2br (SENTINEL @ [10])" by (simp add: nl2br_def SENTINEL_value)
  from 1 2 3 4 5 6 show ?thesis by blast
qed

subsection \<open>Submitting the contact form\<close>

text \<open>
  Claim C4. A submission of the contact form whose phone field holds a value is to remove
  the form, record the name, the phone and the email, and emit exactly one message of the
  user with the phone. The code misses this in two places. It tests \<open>if (phone)\<close>
  without trimming, while \<open>sendMessage\<close> drops a text of white space: with one space in
  the phone input and the other inputs empty the form is removed and the data recorded,
  but no message is rendered and no request is sent. And it reads the three values from
  the first elements with the ids of the inputs, not from the form that is submitted:
  with two forms open, the first one empty, submitting the second form with the phone
  \<open>123\<close> shows the alert, removes no form and sends nothing.
\<close>

theorem submit_loses_the_message:
  "value_of 18 (example_form [] [32] []) = [32] \<and>
   after (submitContactForm [0, 0, 1, 1] (example_form [] [32] [])) transcript
     = Some [messageDiv 9 False WELCOME_MARKUP] \<and>
   after (submitContactForm [0, 0, 1, 1] (example_form [] [32] [])) userData
     = Some \<lparr>name = Some [], phone = Some [32], email = Some []\<rparr> \<and>
   after (submitContactForm [0, 0, 1, 1] (example_form [] [32] [])) requests = Some [] \<and>
   value_of 26 (example_forms [] (js ''123'')) = js ''123'' \<and>
   after (submitContactForm [0, 0, 1, 2] (example_forms [] (js ''123''))) transcript
     = Some [messageDiv 9 False WELCOME_MARKUP, contactForm 15, contactForm 23] \<and>
   after (submitContactForm [0, 0, 1, 2] (example_forms [] (js ''123''))) alerts
     = Some [ALERT_PHONE] \<and>
   after (submitContactForm [0, 0, 1, 2] (example_forms [] (js ''123''))) requests = Some []"
proof -
  let ?st = "example_form [] [32] []"
  let ?data = "\<lparr>name = Some [], phone = Some [32], email = Some []\<rparr>"
  let ?st1 = "?st\<lparr>body := remove_at [0, 0, 1, 1] (body ?st), userData := ?data\<rparr>"
  have "map_option label (getElementById NAME_INPUT (body ?st)) = Some 17"
    "map_option label (getElementById PHONE_INPUT (body ?st)) = Some 18"
    "map_option label (getElementById EMAIL_INPUT (body ?st)) = Some 19"
    by (rule example_form_lookup)+
  then obtain n q e where
    i: "getElementById NAME_INPUT (body ?st) = Some n" "label n = 17"
       "getElementById PHONE_INPUT (body ?st) = Some q" "label q = 18"
       "getElementById EMAIL_INPUT (body ?st) = Some e" "label e = 19"
    by auto
  have c: "trim (contactText [] [32] []) = []"
    by (simp add: contactText_def trim_def is_white_def)
  have run: "submitContactForm [0, 0, 1, 1] ?st = Inr (fillPageForms ?data ?st1)"
    by (simp add: submitContactForm_def i example_form_fields Let_def sendMessage_sync_def c)
  have fr: "frame (fillPageForms ?data ?st1) = frame ?st1" by (rule frame_fillPageForms)
  note f = frame_fields [OF fr]
  have m: "find_id MESSAGES (body ?st) = Some [0, 0, 1]" by (rule example_form_lookup)
  have t0: "transcript ?st = [messageDiv 9 False WELCOME_MARKUP, contactForm 15]"
    by (rule example_form_lookup)
  have tr: "transcript (fillPageForms ?data ?st1) = [messageDiv 9 False WELCOME_MARKUP]"
  proof -
    have "transcript (fillPageForms ?data ?st1) =
        children_of MESSAGES (remove_at ([0, 0, 1] @ [1]) (body ?st))"
      unfolding transcript_def using f(1) by simp
    also have "\<dots> = take 1 (children_of MESSAGES (body ?st)) @
        drop (Suc 1) (children_of MESSAGES (body ?st))"
      by (rule children_of_remove [OF m])
    also have "\<dots> = [messageDiv 9 False WELCOME_MARKUP]"
      using t0 by (simp add: transcript_def)
    finally show ?thesis .
  qed
  have blank: "value_of 18 ?st = [32]"
    "after (submitContactForm [0, 0, 1, 1] ?st) transcript
       = Some [messageDiv 9 False WELCOME_MARKUP]"
    "after (submitContactForm [0, 0, 1, 1] ?st) userData = Some ?data"
    "after (submitContactForm [0, 0, 1, 1] ?st) requests = Some []"
    using run tr f
    by (simp_all add: after_def value_of_def example_form_fields)
  let ?two = "example_forms [] (js ''123'')"
  have "map_option label (getElementById NAME_INPUT (body ?two)) = Some 17"
    "map_option label (getElementById PHONE_INPUT (body ?two)) = Some 18"
    "map_option label (getElementById EMAIL_INPUT (body ?two)) = Some 19"
    by (rule example_forms_lookup)+
  then obtain n' q' e' where
    j: "getElementById NAME_INPUT (body ?two) = Some n'"
       "getElementById PHONE_INPUT (body ?two) = Some q'" "label q' = 18"
       "getElementById EMAIL_INPUT (body ?two) = Some e'"
    by auto
  have v: "vals ?two 18 = []" "vals ?two 26 = js ''123''" "requests ?two = []"
    "alerts ?two = []"
    by (rule example_forms_lookup)+
  have t2: "transcript ?two = [messageDiv 9 False WELCOME_MARKUP, contactForm 15, contactForm 23]"
    by (rule example_forms_lookup)
  have run2: "submitContactForm [0, 0, 1, 2] ?two = Inr (?two\<lparr>alerts := [ALERT_PHONE]\<rparr>)"
    by (simp add: submitContactForm_def j v Let_def)
  have two: "value_of 26 ?two = js ''123''"
    "after (submitContactForm [0, 0, 1, 2] ?two) transcript
       = Some [messageDiv 9 False WELCOME_MARKUP, contactForm 15, contactForm 23]"
    "after (submitContactForm [0, 0, 1, 2] ?two) alerts = Some [ALERT_PHONE]"
    "after (submitContactForm [0, 0, 1, 2] ?two) requests = Some []"
    using t2 v unfolding run2 by (simp_all add: after_def value_of_def transcript_def)
  from blank two show ?thesis by blast
qed

subsection \<open>The phone number of the inline page\<close>

text \<open>
  Claim C5. On the inline page a phone number in the reply of the assistant is to be
  stored under \<open>savbes_phone\<close> and to fill the phone input on the next load. The code
  tests its pattern on the message of the user, not on the reply: the reply
  \<open>Call +7 999 123-45-67\<close> to the message \<open>hello\<close> matches the pattern, is rendered,
  and nothing is stored, so the phone input is empty now and after the next load. A phone
  number in the message of the user is what gets stored.
\<close>

theorem phone_in_reply_is_not_stored:
  "rx_exec phoneRegex (js ''Call +7 999 123-45-67'') = Some (js ''+7 999 123-45-67'') \<and>
   after (sendMessage1 phone_reply (example_inline (js ''hello''))) chatBody
     = Some [(False, GREETING1), (True, js ''hello''), (False, js ''Call +7 999 123-45-67'')] \<and>
   after (sendMessage1 phone_reply (example_inline (js ''hello''))) stored_phone = Some None \<and>
   after (sendMessage1 phone_reply (example_inline (js ''hello''))) phoneInput = Some [] \<and>
   after (sendMessage1 phone_reply (example_inline (js ''hello''))) reloaded_phone = Some [] \<and>
   after (sendMessage1 (Body (JObj [(RESPONSE, JStr (js ''ok''))]))
            (example_inline (js ''call 89991234567''))) reloaded_phone
     = Some (js ''89991234567'')"
proof -
  have 1: "rx_exec phoneRegex (js ''Call +7 999 123-45-67'') = Some (js ''+7 999 123-45-67'')"
    by (simp add: rx_defs js_def)
  have h: "rx_exec phoneRegex (js ''hello'') = None"
    by (simp add: rx_defs js_def)
  have c: "rx_exec phoneRegex (js ''call 89991234567'') = Some (js ''89991234567'')"
    by (simp add: rx_defs js_def)
  have t: "trim (js ''hello'') = js ''hello''"
    "trim (js ''call 89991234567'') = js ''call 89991234567''"
    by (simp_all add: trim_def js_def is_white_def)
  have 2: "sendMessage1 phone_reply (example_inline (js ''hello'')) =
      Inr ((example_inline [])\<lparr>chatBody := [(False, GREETING1), (True, js ''hello''),
                                              (False, js ''Call +7 999 123-45-67'')],
                                 posted := [(js ''hello'', js ''chat_s1'')]\<rparr>)"
    by (simp add: sendMessage1_def example_inline_def page_load_def t js_Nil Let_def
        addMessage1_def toDOMString_def on_reply1_def phone_reply_def h)
  have 3: "sendMessage1 (Body (JObj [(RESPONSE, JStr (js ''ok''))]))
        (example_inline (js ''call 89991234567'')) =
      Inr ((example_inline [])\<lparr>chatBody := [(False, GREETING1), (True, js ''call 89991234567''),
                                              (False, js ''ok'')],
                                 posted := [(js ''call 89991234567'', js ''chat_s1'')],
                                 phoneInput := js ''89991234567'',
                                 localStorage := [SAVBES_PHONE \<mapsto> js ''89991234567'']\<rparr>)"
    by (simp add: sendMessage1_def example_inline_def page_load_def t js_Nil Let_def
        addMessage1_def toDOMString_def on_reply1_def c)
  have 4: "after (sendMessage1 phone_reply (example_inline (js ''hello''))) chatBody
      = Some [(False, GREETING1), (True, js ''hello''), (False, js ''Call +7 999 123-45-67'')]"
    "after (sendMessage1 phone_reply (example_inline (js ''hello''))) stored_phone = Some None"
    "after (sendMessage1 phone_reply (example_inline (js ''hello''))) phoneInput = Some []"
    "after (sendMessage1 phone_reply (example_inline (js ''hello''))) reloaded_phone = Some []"
    unfolding 2
    by (simp_all add: after_def stored_phone_def reloaded_phone_def example_inline_def
        page_load_def)
  have 5: "after (sendMessage1 (Body (JObj [(RESPONSE, JStr (js ''ok''))]))
            (example_inline (js ''call 89991234567''))) reloaded_phone
      = Some (js ''89991234567'')"
    unfolding 3
    by (simp add: after_def reloaded_phone_def example_inline_def page_load_def js_Nil)
  from 1 4 5 show ?thesis by blast
qed

subsection \<open>Failed requests\<close>

text \<open>
  Claim C6. When a message that passes the guard is sent and the request fails or its body
  cannot be parsed, the send operation returns without an error, and the transcript is
  what it was followed by the user's message and by one apology of the assistant:
  nothing is lost, nothing is added twice. In the widget script (with the list of
  messages and the text input in the document) the two nodes are a \<open>div\<close> with the
  classes of a message of the user, whose markup is the message with its line feeds
  replaced, and a \<open>div\<close> with the classes of a message of the assistant, whose markup
  is the fixed apology. In the inline page they are the user's entry with the trimmed
  text and the assistant's entry with the fixed apology of that page.
\<close>

theorem failed_request_one_apology:
  assumes "find_id MESSAGES (body st) \<noteq> None" and "find_id USER_INPUT (body st) \<noteq> None"
    and "trim message \<noteq> []" and "trim (userInput pg) \<noteq> []"
    and "answer = NetworkError \<or> answer = ParseError"
  shows "(\<exists>st'. sendMessage message answer st = Inr st' \<and>
            transcript st' = transcript st @
              [Element (fresh st) ''div'' [] [''savbes-message'', ''savbes-user-message''] []
                 (nl2br message) [],
               Element (Suc (fresh st)) ''div'' [] [''savbes-message'', ''savbes-assistant-message''] []
                 APOLOGY []] \<and>
            requests st' = requests st @ [(message, session st)]) \<and>
         (\<exists>pg'. sendMessage1 answer pg = Inr pg' \<and>
            chatBody pg' = chatBody pg @ [(True, trim (userInput pg)), (False, APOLOGY1)] \<and>
            posted pg' = posted pg @ [(trim (userInput pg), sessionId pg)])"
proof -
  have old: "(\<exists>st'. sendMessage message answer st = Inr st' \<and>
            transcript st' = transcript st @
              [messageDiv (fresh st) True (nl2br message),
               messageDiv (Suc (fresh st)) False APOLOGY] \<and>
            requests st' = requests st @ [(message, session st)]) \<and>
         (\<exists>pg'. sendMessage1 answer pg = Inr pg' \<and>
            chatBody pg' = chatBody pg @ [(True, trim (userInput pg)), (False, APOLOGY1)] \<and>
            posted pg' = posted pg @ [(trim (userInput pg), sessionId pg)])"
  proof
    from assms(1) obtain p where p: "find_id MESSAGES (body st) = Some p" by blast
    from sendMessage_sync_ok [OF p assms(2,3)] obtain st1 where
      s: "sendMessage_sync message st = Inr st1"
      and t: "transcript st1 = transcript st @ [messageDiv (fresh st) True (nl2br message)]"
      and m: "find_id MESSAGES (body st1) = Some p"
      and r: "fresh st1 = Suc (fresh st)" "requests st1 = requests st @ [(message, session st)]"
      by blast
    have "\<exists>st'. sendMessage_resume answer st1 = Inr st' \<and>
            transcript st' = transcript st1 @ [messageDiv (fresh st1) False APOLOGY] \<and>
            requests st' = requests st1"
      using assms(5) on_error_ok [OF m, of NetworkFailure] on_error_ok [OF m, of SyntaxError]
      by (auto simp: sendMessage_resume_def)
    with s t r assms(3) show "\<exists>st'. sendMessage message answer st = Inr st' \<and>
              transcript st' = transcript st @
                [messageDiv (fresh st) True (nl2br message),
                 messageDiv (Suc (fresh st)) False APOLOGY] \<and>
              requests st' = requests st @ [(message, session st)]"
      by (auto simp: sendMessage_def)
  next
    show "\<exists>pg'. sendMessage1 answer pg = Inr pg' \<and>
              chatBody pg' = chatBody pg @ [(True, trim (userInput pg)), (False, APOLOGY1)] \<and>
              posted pg' = posted pg @ [(trim (userInput pg), sessionId pg)]"
      using assms(4,5)
      by (auto simp: sendMessage1_def Let_def addMessage1_def toDOMString_def on_error1_def)
  qed
  then show ?thesis unfolding messageDiv_user messageDiv_assistant .
qed

text \<open>
  The request of the message \<open>hi\<close> fails on the example pages: the transcript of the
  widget is the welcome message, \<open>hi\<close> and the apology.
\<close>

theorem failed_request_one_apology_witness:
  "trim (js ''hi'') = js ''hi'' \<and>
   (\<exists>st'. sendMessage (js ''hi'') NetworkError example_widget = Inr st' \<and>
      transcript st' =
        [Element 9 ''div'' [] [''savbes-message'', ''savbes-assistant-message''] []
           WELCOME_MARKUP [],
         Element 15 ''div'' [] [''savbes-message'', ''savbes-user-message''] []
           (js ''hi'') [],
         Element 16 ''div'' [] [''savbes-message'', ''savbes-assistant-message''] []
           APOLOGY []] \<and>
      requests st' = [(js ''hi'', js ''s1'')]) \<and>
   (\<exists>pg'. sendMessage1 NetworkError (example_inline (js ''hi'')) = Inr pg' \<and>
      chatBody pg' = [(False, GREETING1), (True, js ''hi''), (False, APOLOGY1)] \<and>
      posted pg' = [(js ''hi'', js ''chat_s1'')])"
proof -
  have n: "nl2br (js ''hi'') = js ''hi''" by (rule nl2br_id) (simp add: js_def)
  have h: "find_id MESSAGES (body example_widget) \<noteq> None"
    "find_id USER_INPUT (body example_widget) \<noteq> None"
    "trim (js ''hi'') \<noteq> []" "trim (userInput (example_inline (js ''hi''))) \<noteq> []"
    by (simp_all add: example_widget_mounted trim_hi example_inline_input js_Nil)
  from failed_request_one_apology [OF h, of NetworkError]
  show ?thesis
    by (simp add: messageDiv_user messageDiv_assistant trim_hi n example_widget_fields
        example_widget_transcript example_inline_input example_inline_fields)
qed

subsection \<open>Blank input\<close>

text \<open>
  Claim C7. When the text to send is empty or holds nothing but white space, the send
  operation leaves the page exactly as it was: no request is sent and nothing is appended
  to the transcript. This holds for \<open>sendMessage\<close> of the widget script, for the handler
  of its send button when the text input holds that text, and for \<open>sendMessage\<close> of the
  inline page when its input holds that text.
\<close>

theorem blank_input_sends_nothing:
  assumes "\<forall>c\<in>set s. is_white c"
  shows "sendMessage s answer st = Inr st \<and>
         (\<forall>inp. getElementById USER_INPUT (body st) = Some inp \<and> vals st (label inp) = s \<longrightarrow>
            clickSend answer st = Inr st) \<and>
         sendMessage1 answer (pg\<lparr>userInput := s\<rparr>) = Inr (pg\<lparr>userInput := s\<rparr>)"
  using assms
  by (auto simp: trim_Nil_iff [symmetric] sendMessage_def clickSend_def sendMessage1_def)

text \<open>Two spaces, sent directly, typed into the text input of the widget (label 11) and
  typed into the input of the inline page.\<close>

theorem blank_input_sends_nothing_witness:
  "is_white 32 \<and>
   sendMessage [32, 32] NetworkError (example_widget\<lparr>vals := (vals example_widget)(11 := [32, 32])\<rparr>)
     = Inr (example_widget\<lparr>vals := (vals example_widget)(11 := [32, 32])\<rparr>) \<and>
   clickSend NetworkError (example_widget\<lparr>vals := (vals example_widget)(11 := [32, 32])\<rparr>)
     = Inr (example_widget\<lparr>vals := (vals example_widget)(11 := [32, 32])\<rparr>) \<and>
   sendMessage1 NetworkError (example_inline [32, 32]) = Inr (example_inline [32, 32])"
proof -
  let ?st = "example_widget\<lparr>vals := (vals example_widget)(11 := [32, 32])\<rparr>"
  have w: "\<forall>c\<in>set [32, 32]. is_white c" by (simp add: is_white_def)
  have i: "getElementById USER_INPUT (body ?st) =
      Some (Element 11 ''input'' USER_INPUT [''savbes-user-input'']
              [(''type'', js ''text''), (''placeholder'', PH_MESSAGE)] [] [])"
    by (simp add: getElementById_def example_widget_mounted)
       (simp add: example_widget_body chatElement_def)
  have e: "(example_inline [])\<lparr>userInput := [32, 32]\<rparr> = example_inline [32, 32]"
    by (simp add: example_inline_def)
  from blank_input_sends_nothing [OF w, of NetworkError ?st "example_inline []"] i e
  show ?thesis by (simp add: is_white_def)
qed

subsection \<open>Initialisation without the container\<close>

text \<open>
  Claim C8. When the document has no element with the id of the container,
  \<open>initChat\<close> returns without an error, logs the absence (an error and a hint) and
  leaves the tree of the document, the values, the timers and the requests as they were:
  no element of the widget is injected. The one thing it has done by then is to append
  its style sheet to the head, which happens before the container is looked up.
\<close>

theorem initChat_without_container:
  assumes "find_id CONTAINER (body st) = None"
  shows "\<exists>st'. initChat sid st = Inr st' \<and>
           console st' = console st @ [ContainerNotFound, ContainerHint] \<and>
           body st' = body st \<and> head st' = head st @ [styleElement (fresh st)] \<and>
           vals st' = vals st \<and> dispatched st' = dispatched st \<and> timers st' = timers st \<and>
           requests st' = requests st \<and> alerts st' = alerts st"
  using assms by (simp add: initChat_def)

theorem initChat_without_container_witness:
  "find_id CONTAINER (body bare_host) = None \<and>
   (\<exists>st'. initChat (js ''s1'') bare_host = Inr st' \<and>
      console st' = [ContainerNotFound, ContainerHint] \<and>
      body st' = Element 0 ''body'' [] [] [] [] [leaf 1 ''p'' []] \<and>
      head st' = [styleElement 2] \<and> timers st' = [] \<and> requests st' = [])"
proof -
  have h: "find_id CONTAINER (body bare_host) = None"
    by (simp add: bare_host_def page_of_def leaf_def CONTAINER_def)
  from initChat_without_container [OF h, of "js ''s1''"] h
  show ?thesis by (auto simp: bare_host_def page_of_def)
qed

subsection \<open>Filling the forms of the host page\<close>

text \<open>
  Claim C9. \<open>fillPageForms\<close> is to leave every input inside the widget as it is. The
  loop over the forms of the page skips a form that is inside the chat block, but does
  not look at the inputs it fills, as the loops over the inputs outside forms do. On a
  host page whose container stands inside a form, with two contact forms open, the
  visitor submits the first form with the phone \<open>123\<close>: the phone input of the second
  form (label 28), an input inside the chat block that was empty, takes the value
  \<open>123\<close> and gets an \<open>input\<close> and a \<open>change\<close> event, as the phone input of the host
  (label 2) does.
\<close>

theorem widget_input_filled_in_host_form:
  "after (then_do nested_widget (submitContactForm [0, 1, 0, 1, 1])) (widget_input 28)
     = Some True \<and>
   after nested_widget (value_of 28) = Some [] \<and>
   after (then_do nested_widget (submitContactForm [0, 1, 0, 1, 1])) (value_of 28)
     = Some (js ''123'') \<and>
   after (then_do nested_widget (submitContactForm [0, 1, 0, 1, 1])) dispatched
     = Some [(2, ''input''), (2, ''change''), (28, ''input''), (28, ''change'')]"
proof -
  have r: "case then_do nested_widget (submitContactForm [0, 1, 0, 1, 1]) of
             Inl e \<Rightarrow> False
           | Inr st \<Rightarrow>
               widget_input 28 st \<and> vals st 28 = js ''123'' \<and>
               dispatched st = [(2, ''input''), (2, ''change''), (28, ''input''), (28, ''change'')]"
    by (simp add: nested_widget_def nested_host_def widget_input_def runs names elements
        selectors)
  have b: "after nested_widget (value_of 28) = Some []"
    by (simp add: nested_widget_def nested_host_def value_of_def runs names elements)
  from r b show ?thesis
    by (auto simp: after_def value_of_def split: sum.splits)
qed

subsection \<open>Messages of the user\<close>

text \<open>
  Claim C10. The sentinel is handled in replies of the assistant only. Rendering a
  message of the user (\<open>isUser\<close> true) appends one \<open>div\<close> with the classes of a
  message of the user, whose markup is the text with its line feeds replaced, and nothing
  else, schedules no contact form, and a sentinel in the text is still in
  the markup that is displayed.
\<close>

theorem user_message_never_opens_form:
  assumes "find_id MESSAGES (body st) \<noteq> None"
  shows "\<exists>st'. addMessage (JStr m) True st = Inr st' \<and>
           transcript st' = transcript st @
             [Element (fresh st) ''div'' [] [''savbes-message'', ''savbes-user-message''] []
                (nl2br m) []] \<and>
           timers st' = timers st \<and>
           (str_includes SENTINEL m \<longrightarrow> str_includes SENTINEL (nl2br m))"
proof -
  have old: "\<exists>st'. addMessage (JStr m) True st = Inr st' \<and>
           transcript st' = transcript st @ [messageDiv (fresh st) True (nl2br m)] \<and>
           timers st' = timers st \<and>
           (str_includes SENTINEL m \<longrightarrow> str_includes SENTINEL (nl2br m))"
  proof -
    from assms obtain p where "find_id MESSAGES (body st) = Some p" by blast
    from addMessage_string [OF this, of m True] show ?thesis
      by (auto simp: nl2br_keeps_sentinel)
  qed
  then show ?thesis unfolding messageDiv_user messageDiv_assistant .
qed

theorem user_message_never_opens_form_witness:
  "str_includes SENTINEL (js ''ok [SHOW_CONTACT_FORM]'') \<and>
   (\<exists>st'. addMessage (JStr (js ''ok [SHOW_CONTACT_FORM]'')) True example_widget = Inr st' \<and>
      transcript st' =
        [Element 9 ''div'' [] [''savbes-message'', ''savbes-assistant-message''] []
           WELCOME_MARKUP [],
         Element 15 ''div'' [] [''savbes-message'', ''savbes-user-message''] []
           (js ''ok [SHOW_CONTACT_FORM]'') []] \<and>
      timers st' = [] \<and>
      str_includes SENTINEL (nl2br (js ''ok [SHOW_CONTACT_FORM]'')))"
proof -
  have m: "find_id MESSAGES (body example_widget) \<noteq> None"
    by (simp add: example_widget_mounted)
  have i: "str_includes SENTINEL (js ''ok [SHOW_CONTACT_FORM]'')"
    by (simp add: SENTINEL_def js_def)
  have n: "nl2br (js ''ok [SHOW_CONTACT_FORM]'') = js ''ok [SHOW_CONTACT_FORM]''"
    by (rule nl2br_id) (simp add: js_def)
  from user_message_never_opens_form [OF m, of "js ''ok [SHOW_CONTACT_FORM]''"] i n
  show ?thesis
    by (auto simp: messageDiv_user messageDiv_assistant example_widget_fields
        example_widget_transcript)
qed

end
